theory Spec2Isabelle
  imports Complex_Main
begin

section \<open>Numbers of the host language\<close>

text \<open>
  Every quantity of the design engine is a JavaScript number, that is an IEEE-754
  binary64 value. A finite value is carried as the real number it denotes; the two
  infinities and NaN are separate constructors. The sign of zero is not modelled:
  \<open>Fin 0\<close> stands for both zeros and a zero divisor is taken as \<open>+0\<close>.
\<close>

datatype number = NaN | NInf | Fin real | PInf

subsection \<open>Rounding to binary64\<close>

text \<open>
  The result of an arithmetic operation is the exact result rounded to the nearest
  value with a 53-bit significand, ties to the even significand. Below \<open>2 powr -1022\<close>
  the spacing stays \<open>2 powr -1074\<close> (subnormals); a rounded magnitude of \<open>2 ^ 1024\<close> or
  more is an infinity.
\<close>

definition expo :: "real \<Rightarrow> int" where
  "expo x = (if x = 0 then - 1022 else max \<lfloor>log 2 \<bar>x\<bar>\<rfloor> (- 1022))"

definition ulp :: "real \<Rightarrow> real" where
  "ulp x = 2 powr (of_int (expo x) - 52)"

definition roundTiesToEven :: "real \<Rightarrow> int" where
  "roundTiesToEven y =
     (let f = \<lfloor>y\<rfloor>; r = y - of_int f
      in if r < 1 / 2 then f else if 1 / 2 < r then f + 1 else if even f then f else f + 1)"

definition rnd :: "real \<Rightarrow> real" where
  "rnd x = of_int (roundTiesToEven (x / ulp x)) * ulp x"

definition fl :: "real \<Rightarrow> number" where
  "fl x = (let r = rnd x
           in if 2 ^ 1024 \<le> r then PInf else if r \<le> - (2 ^ 1024) then NInf else Fin r)"

text \<open>A decimal literal of the source denotes the binary64 value nearest to it.\<close>

definition lit :: "real \<Rightarrow> number" where
  "lit x = fl x"

subsection \<open>Arithmetic and comparison\<close>

definition sgnInf :: "real \<Rightarrow> number" where
  "sgnInf s = (if s = 0 then NaN else if 0 < s then PInf else NInf)"

instantiation number :: "{uminus, plus, minus, times, inverse, ord}"
begin

fun uminus_number :: "number \<Rightarrow> number" where
  "uminus_number NaN = NaN"
| "uminus_number NInf = PInf"
| "uminus_number PInf = NInf"
| "uminus_number (Fin a) = Fin (- a)"

fun plus_number :: "number \<Rightarrow> number \<Rightarrow> number" where
  "plus_number (Fin a) (Fin b) = fl (a + b)"
| "plus_number NaN y = NaN"
| "plus_number x NaN = NaN"
| "plus_number PInf NInf = NaN"
| "plus_number NInf PInf = NaN"
| "plus_number PInf y = PInf"
| "plus_number x PInf = PInf"
| "plus_number NInf y = NInf"
| "plus_number x NInf = NInf"

definition minus_number :: "number \<Rightarrow> number \<Rightarrow> number" where
  "minus_number x y = x + (- y)"

fun times_number :: "number \<Rightarrow> number \<Rightarrow> number" where
  "times_number (Fin a) (Fin b) = fl (a * b)"
| "times_number NaN y = NaN"
| "times_number x NaN = NaN"
| "times_number (Fin a) PInf = sgnInf a"
| "times_number (Fin a) NInf = sgnInf (- a)"
| "times_number PInf (Fin b) = sgnInf b"
| "times_number NInf (Fin b) = sgnInf (- b)"
| "times_number PInf PInf = PInf"
| "times_number NInf NInf = PInf"
| "times_number PInf NInf = NInf"
| "times_number NInf PInf = NInf"

fun divide_number :: "number \<Rightarrow> number \<Rightarrow> number" where
  "divide_number (Fin a) (Fin b) = (if b = 0 then sgnInf a else fl (a / b))"
| "divide_number NaN y = NaN"
| "divide_number x NaN = NaN"
| "divide_number (Fin a) PInf = Fin 0"
| "divide_number (Fin a) NInf = Fin 0"
| "divide_number PInf (Fin b) = (if b < 0 then NInf else PInf)"
| "divide_number NInf (Fin b) = (if b < 0 then PInf else NInf)"
| "divide_number PInf PInf = NaN"
| "divide_number PInf NInf = NaN"
| "divide_number NInf PInf = NaN"
| "divide_number NInf NInf = NaN"

fun inverse_number :: "number \<Rightarrow> number" where
  "inverse_number (Fin b) = (if b = 0 then PInf else fl (1 / b))"
| "inverse_number NaN = NaN"
| "inverse_number x = Fin 0"

fun less_eq_number :: "number \<Rightarrow> number \<Rightarrow> bool" where
  "less_eq_number (Fin a) (Fin b) = (a \<le> b)"
| "less_eq_number NaN y = False"
| "less_eq_number x NaN = False"
| "less_eq_number NInf y = True"
| "less_eq_number x PInf = True"
| "less_eq_number PInf y = False"
| "less_eq_number x NInf = False"

fun less_number :: "number \<Rightarrow> number \<Rightarrow> bool" where
  "less_number (Fin a) (Fin b) = (a < b)"
| "less_number NaN y = False"
| "less_number x NaN = False"
| "less_number NInf NInf = False"
| "less_number PInf y = False"
| "less_number x NInf = False"
| "less_number NInf y = True"
| "less_number x PInf = True"

instance ..

end

subsection \<open>The functions of \<open>Math\<close> and the coercions the code uses\<close>

text \<open>
  \<open>Math.sqrt\<close> is the correctly rounded root, as the engines compute it; \<open>Math.ceil\<close>
  and \<open>Math.round\<close> are exact; \<open>Math.max\<close> and \<open>Math.min\<close> give NaN as soon as an
  argument is NaN.
\<close>

fun Math_sqrt :: "number \<Rightarrow> number" where
  "Math_sqrt (Fin a) = (if a < 0 then NaN else fl (sqrt a))"
| "Math_sqrt PInf = PInf"
| "Math_sqrt NInf = NaN"
| "Math_sqrt NaN = NaN"

fun Math_ceil :: "number \<Rightarrow> number" where
  "Math_ceil (Fin a) = Fin (of_int \<lceil>a\<rceil>)"
| "Math_ceil x = x"

text \<open>\<open>Math.round\<close> rounds to the nearest integer, a tie towards \<open>+\<infinity>\<close>.\<close>

fun Math_round :: "number \<Rightarrow> number" where
  "Math_round (Fin a) = Fin (of_int \<lfloor>a + 1 / 2\<rfloor>)"
| "Math_round x = x"

definition Math_max :: "number \<Rightarrow> number \<Rightarrow> number" where
  "Math_max x y = (if x = NaN \<or> y = NaN then NaN else if x \<le> y then y else x)"

definition Math_min :: "number \<Rightarrow> number \<Rightarrow> number" where
  "Math_min x y = (if x = NaN \<or> y = NaN then NaN else if x \<le> y then x else y)"

text \<open>\<open>Math.pow(x, 2)\<close>: the engines return \<open>x * x\<close> for the exponent 2.\<close>

definition Math_pow2 :: "number \<Rightarrow> number" where
  "Math_pow2 x = x * x"

definition isNaN :: "number \<Rightarrow> bool" where
  "isNaN x = (x = NaN)"

text \<open>
  A number is falsy when it is zero or NaN: \<open>!x\<close> holds exactly then, and
  \<open>x || y\<close> is \<open>y\<close> exactly then.
\<close>

definition falsy :: "number \<Rightarrow> bool" where
  "falsy x = (x = NaN \<or> x = Fin 0)"

definition orElse :: "number \<Rightarrow> number \<Rightarrow> number" where
  "orElse x y = (if falsy x then y else x)"

text \<open>
  \<open>Number(x.toFixed(2))\<close>: the decimal with two fraction digits nearest to \<open>x\<close> (a tie
  away from zero), read back as a number; from \<open>1e21\<close> on \<open>toFixed\<close> prints the number
  itself.
\<close>

fun toFixed2 :: "number \<Rightarrow> number" where
  "toFixed2 (Fin a) =
     (if 10 ^ 21 \<le> \<bar>a\<bar> then Fin a
      else if a < 0 then - fl (of_int \<lfloor>- a * 100 + 1 / 2\<rfloor> / 100)
      else fl (of_int \<lfloor>a * 100 + 1 / 2\<rfloor> / 100))"
| "toFixed2 x = x"

subsection \<open>Text fields\<close>

text \<open>
  An input field is a string. \<open>Blank\<close> is the empty (or absent) string, the only falsy
  one; \<open>Text v\<close> is a non-empty string on which \<open>parseFloat\<close> returns \<open>v\<close>
  (\<open>NaN\<close> when it does not start with a number).
\<close>

datatype field = Blank | Text number

fun parseFloat :: "field \<Rightarrow> number" where
  "parseFloat Blank = NaN"
| "parseFloat (Text v) = v"

fun orText :: "field \<Rightarrow> number \<Rightarrow> field" where
  "orText Blank v = Text v"
| "orText (Text x) v = Text x"

section \<open>The design engine\<close>

subsection \<open>Engineering constants (BS 8110)\<close>

definition CONCRETE_DENSITY :: number where "CONCRETE_DENSITY = Fin 24"
definition SLAB_DL_UNIT :: number where "SLAB_DL_UNIT = lit 4.0"
definition WALL_DL_UNIT :: number where "WALL_DL_UNIT = lit 2.6"
definition FY :: number where "FY = Fin 460"
definition COVER :: number where "COVER = Fin 25"
definition GAMMA_G :: number where "GAMMA_G = lit 1.4"
definition GAMMA_Q :: number where "GAMMA_Q = lit 1.6"

datatype status = SAFE | UNSAFE | IDLE

subsection \<open>Section design shared by the beam and the ground beam\<close>

text \<open>
  Each \<open>calculateDesign\<close> repeats the same block for every flexural member: the
  moment factor \<open>K\<close> decides the flexural verdict; only a section that passed gets
  steel, a main-bar callout, shear links and the shear override. The block is written
  once here, with the member's quantities and the three link labels as arguments.
\<close>

definition flexuralCheck :: "number \<Rightarrow> status" where
  "flexuralCheck K = (if K \<le> lit 0.156 then SAFE else UNSAFE)"

definition utilizationOf :: "number \<Rightarrow> number" where
  "utilizationOf K = Math_min (Fin 100) (Math_round ((K / lit 0.156) * Fin 100))"

definition selectMainBar :: "number \<Rightarrow> string" where
  "selectMainBar asRequired =
     (if asRequired < Fin 226 then ''2T12 Bottom''
      else if asRequired < Fin 402 then ''2T16 Bottom''
      else if asRequired < Fin 603 then ''3T16 Bottom''
      else if asRequired < Fin 942 then ''3T20 Bottom''
      else ''4T20 Bottom'')"

definition leverArm :: "number \<Rightarrow> number \<Rightarrow> number" where
  "leverArm K d = Math_min (d * (lit 0.5 + Math_sqrt (lit 0.25 - K / lit 0.9))) (lit 0.95 * d)"

definition steelRequired :: "number \<Rightarrow> number \<Rightarrow> number \<Rightarrow> number \<Rightarrow> number \<Rightarrow> number" where
  "steelRequired K M b h d =
     (let z = leverArm K d;
          asRequired = (M * Fin 1000000) / (lit 0.95 * FY * z);
          minAs = lit 0.0013 * b * h
      in Math_max asRequired minAs)"

definition shearStress :: "number \<Rightarrow> number \<Rightarrow> number \<Rightarrow> number" where
  "shearStress V b d = (V * Fin 1000) / (b * d)"

record Section =
  sStatus :: status
  sMainBar :: string
  sShearLinks :: string
  sAsRequired :: number

definition designSection ::
  "number \<Rightarrow> number \<Rightarrow> number \<Rightarrow> number \<Rightarrow> number \<Rightarrow> number \<Rightarrow> number
     \<Rightarrow> string \<Rightarrow> string \<Rightarrow> string \<Rightarrow> Section" where
  "designSection K M V b h d fcu linksDefault linksHigh linksLow =
     (let status = flexuralCheck K
      in if status = SAFE then
           (let asRequired = steelRequired K M b h d;
                v = shearStress V b d
            in \<lparr> sStatus = (if lit 0.8 * Math_sqrt fcu < v then UNSAFE else status),
                 sMainBar = selectMainBar asRequired,
                 sShearLinks = (if lit 0.4 < v then linksHigh else linksLow),
                 sAsRequired = asRequired \<rparr>)
         else \<lparr> sStatus = status, sMainBar = ''None'', sShearLinks = linksDefault,
                sAsRequired = Fin 0 \<rparr>)"

subsection \<open>Footing side, shared by both suites\<close>

definition footingSide :: "number \<Rightarrow> number \<Rightarrow> number" where
  "footingSide load soil =
     (let footingArea = load / soil
      in Math_ceil (Math_sqrt footingArea * Fin 10) / Fin 10)"

subsection \<open>The beam suite\<close>

record DesignInput =
  in_span :: field
  in_width :: field
  in_depth :: field
  in_fcu :: field
  in_tributaryWidth :: field
  in_wallHeight :: field
  in_liveLoad :: field
  in_colHeight :: field
  in_soilCapacity :: field
  in_groundBeamSpan :: field
  in_groundBeamWidth :: field
  in_groundBeamDepth :: field
  in_groundBeamLoad :: field

record DesignResult =
  width :: number
  depth :: number
  totalUDL :: number
  moment :: number
  reaction :: number
  asRequired :: number
  mainBar :: string
  topBar :: string
  shearLinks :: string
  status :: status
  utilization :: number
  colSize :: number
  colStatus :: status
  footingSize :: number
  footingSteel :: string
  groundBeamWidth :: number
  groundBeamDepth :: number
  groundBeamMoment :: number
  groundBeamAsRequired :: number
  groundBeamMainBar :: string
  groundBeamTopBar :: string
  groundBeamShearLinks :: string
  groundBeamStatus :: status
  groundBeamUtilization :: number

text \<open>The guard on the span: \<open>!L || isNaN(L) || L <= 0\<close>.\<close>

definition spanRejected :: "number \<Rightarrow> bool" where
  "spanRejected L = (falsy L \<or> isNaN L \<or> L \<le> Fin 0)"

text \<open>Width and depth, derived from the span where a field gives zero or no number.\<close>

definition autoDepth :: "number \<Rightarrow> number \<Rightarrow> number \<Rightarrow> number" where
  "autoDepth L b h =
     (if falsy b \<or> falsy h
      then orElse h (Math_max (Fin 300) (Math_ceil ((L * Fin 1000 / Fin 14) / Fin 25) * Fin 25))
      else h)"

definition autoWidth :: "number \<Rightarrow> number \<Rightarrow> number \<Rightarrow> number" where
  "autoWidth L b h =
     (if falsy b \<or> falsy h
      then orElse b (Math_max (Fin 150) (Math_ceil ((autoDepth L b h / lit 2.5) / Fin 25) * Fin 25))
      else b)"

definition beamUDL :: "number \<Rightarrow> number \<Rightarrow> number \<Rightarrow> number \<Rightarrow> number \<Rightarrow> number" where
  "beamUDL b h trib wallH LL =
     (let sw = (b / Fin 1000) * (h / Fin 1000) * CONCRETE_DENSITY;
          deadLoad = sw + (SLAB_DL_UNIT * trib) + (WALL_DL_UNIT * wallH);
          liveLoadTotal = LL * trib
      in (GAMMA_G * deadLoad) + (GAMMA_Q * liveLoadTotal))"

definition spanMoment :: "number \<Rightarrow> number \<Rightarrow> number" where
  "spanMoment w L = (w * L * L) / Fin 8"

definition endReaction :: "number \<Rightarrow> number \<Rightarrow> number" where
  "endReaction w L = (w * L) / Fin 2"

definition effDepth :: "number \<Rightarrow> number" where
  "effDepth h = h - COVER - Fin 8 - Fin 10"

definition kFactor :: "number \<Rightarrow> number \<Rightarrow> number \<Rightarrow> number \<Rightarrow> number" where
  "kFactor M b d fcu = (M * Fin 1000000) / (b * Math_pow2 d * fcu)"

text \<open>Column: the beam reaction plus the self weight of a 200 mm column.\<close>

definition axialLoadOf :: "number \<Rightarrow> number \<Rightarrow> number" where
  "axialLoadOf reaction' colH = reaction' + (lit 0.2 * lit 0.2 * colH * Fin 24 * lit 1.4)"

definition colCapacityOf :: "number \<Rightarrow> number" where
  "colCapacityOf fcu =
     (let colSize = Fin 200;
          ac = colSize * colSize;
          asc = ac * lit 0.008
      in (lit 0.35 * fcu * ac + lit 0.67 * FY * asc) / Fin 1000)"

definition colStatusOf :: "number \<Rightarrow> number \<Rightarrow> status" where
  "colStatusOf axialLoad colCapacity = (if axialLoad < colCapacity then SAFE else UNSAFE)"

definition footingSteelOf :: "number \<Rightarrow> number \<Rightarrow> string" where
  "footingSteelOf axialLoad footingSize' =
     (let colSize = Fin 200;
          footingP = axialLoad / (footingSize' * footingSize');
          cantL = (footingSize' - (colSize / Fin 1000)) / Fin 2;
          footingM = (footingP * Math_pow2 cantL) / Fin 2;
          footingD = Fin 300 - Fin 50;
          footingAs = (footingM * Fin 1000000) / (lit 0.95 * FY * (lit 0.95 * footingD));
          footingMinAs = lit 0.0013 * Fin 1000 * Fin 300;
          finalFootingAs = Math_max footingAs footingMinAs;
          footingSteel0 = ''T12 @ 250mm B1/B2'';
          footingSteel1 = (if Fin 452 < finalFootingAs then ''T12 @ 200mm B1/B2'' else footingSteel0)
      in if Fin 600 < finalFootingAs then ''T12 @ 150mm B1/B2'' else footingSteel1)"

definition calculateDesign :: "DesignInput \<Rightarrow> DesignResult option" where
  "calculateDesign inputs =
     (let L = parseFloat (in_span inputs);
          fcu = parseFloat (in_fcu inputs);
          trib = parseFloat (orText (in_tributaryWidth inputs) (Fin 0));
          wallH = parseFloat (orText (in_wallHeight inputs) (Fin 0));
          LL = parseFloat (orText (in_liveLoad inputs) (lit 1.5));
          soil = parseFloat (orText (in_soilCapacity inputs) (Fin 150));
          colH = parseFloat (orText (in_colHeight inputs) (lit 3.0));
          groundBeamL = parseFloat (orText (in_groundBeamSpan inputs) (lit 3.0));
          groundBeamW = parseFloat (orText (in_groundBeamWidth inputs) (Fin 200));
          groundBeamH = parseFloat (orText (in_groundBeamDepth inputs) (Fin 350));
          groundBeamLoad = parseFloat (orText (in_groundBeamLoad inputs) (lit 10.0))
      in if spanRejected L then None
         else
          (let h = autoDepth L (parseFloat (in_width inputs)) (parseFloat (in_depth inputs));
               b = autoWidth L (parseFloat (in_width inputs)) (parseFloat (in_depth inputs));
               totalUDL' = beamUDL b h trib wallH LL;
               M = spanMoment totalUDL' L;
               reaction' = endReaction totalUDL' L;
               d = effDepth h;
               K = kFactor M b d fcu;
               beam = designSection K M reaction' b h d fcu ''R6-250'' ''R8 @ 175mm'' ''R6 @ 200mm'';
               groundBeamSw = (groundBeamW / Fin 1000) * (groundBeamH / Fin 1000) * CONCRETE_DENSITY;
               groundBeamTotalUDL = groundBeamLoad + groundBeamSw;
               groundBeamM = spanMoment groundBeamTotalUDL groundBeamL;
               groundBeamReaction = endReaction groundBeamTotalUDL groundBeamL;
               groundBeamD = effDepth groundBeamH;
               groundBeamK = kFactor groundBeamM groundBeamW groundBeamD fcu;
               ground = designSection groundBeamK groundBeamM groundBeamReaction groundBeamW
                          groundBeamH groundBeamD fcu ''R6-250'' ''R8 @ 175mm'' ''R6 @ 200mm'';
               axialLoad = axialLoadOf reaction' colH;
               footingSize' = footingSide axialLoad soil
           in Some \<lparr> width = b, depth = h,
                     totalUDL = toFixed2 totalUDL',
                     moment = toFixed2 M,
                     reaction = toFixed2 reaction',
                     asRequired = Math_round (sAsRequired beam),
                     mainBar = sMainBar beam,
                     topBar = ''2T12 (Hangers)'',
                     shearLinks = sShearLinks beam,
                     status = sStatus beam,
                     utilization = utilizationOf K,
                     colSize = Fin 200,
                     colStatus = colStatusOf axialLoad (colCapacityOf fcu),
                     footingSize = footingSize',
                     footingSteel = footingSteelOf axialLoad footingSize',
                     groundBeamWidth = groundBeamW,
                     groundBeamDepth = groundBeamH,
                     groundBeamMoment = toFixed2 groundBeamM,
                     groundBeamAsRequired = Math_round (sAsRequired ground),
                     groundBeamMainBar = sMainBar ground,
                     groundBeamTopBar = ''2T12 (Hangers)'',
                     groundBeamShearLinks = sShearLinks ground,
                     groundBeamStatus = sStatus ground,
                     groundBeamUtilization = utilizationOf groundBeamK \<rparr>))"

subsection \<open>The column suite\<close>

record DesignInput_A =
  inA_colWidth :: field
  inA_colLength :: field
  inA_colHeight :: field
  inA_colSpacing :: field
  inA_colLoad :: field
  inA_soilCapacity :: field
  inA_fcu :: field
  inA_groundBeamSpan :: field

record DesignResult_A =
  colSize_A :: number
  colLoad_A :: number
  colCapacity_A :: number
  colStatus_A :: status
  footingSize_A :: number
  footingThickness_A :: number
  footingSteel_A :: string
  footingStatus_A :: status
  groundBeamWidth_A :: number
  groundBeamDepth_A :: number
  groundBeamMoment_A :: number
  groundBeamShear_A :: number
  groundBeamAsRequired_A :: number
  groundBeamMainBar_A :: string
  groundBeamTopBar_A :: string
  groundBeamShearLinks_A :: string
  groundBeamStatus_A :: status
  groundBeamUtilization_A :: number
  bearingPressure_A :: number
  requiredFootingArea_A :: number

text \<open>Column capacity with the design strengths and a steel ratio of 1 per cent.\<close>

definition colCapacity_design :: "number \<Rightarrow> number \<Rightarrow> number \<Rightarrow> number" where
  "colCapacity_design colWidth colLength fcu =
     (let colArea = colWidth * colLength;
          steelRatio = lit 0.01;
          steelArea = colArea * steelRatio;
          concreteArea = colArea * (Fin 1 - steelRatio);
          fcd = (lit 0.67 * fcu) / lit 1.5;
          fyd = FY / lit 1.15
      in (lit 0.4 * fcd * concreteArea + lit 0.87 * fyd * steelArea) / Fin 1000)"

definition bearingPressureOf :: "number \<Rightarrow> number \<Rightarrow> number" where
  "bearingPressureOf colLoad side = colLoad / (side * side)"

definition footingStatusOf :: "number \<Rightarrow> number \<Rightarrow> status" where
  "footingStatusOf actualBearingPressure soilCapacity =
     (if actualBearingPressure \<le> soilCapacity then SAFE else UNSAFE)"

definition footingThicknessOf :: "number \<Rightarrow> number \<Rightarrow> number" where
  "footingThicknessOf colWidth colLength =
     Math_max (Fin 300) (Math_ceil (Math_max colWidth colLength / Fin 2))"

definition footingSteel_design ::
  "number \<Rightarrow> number \<Rightarrow> number \<Rightarrow> number \<Rightarrow> number \<Rightarrow> number \<Rightarrow> string" where
  "footingSteel_design colWidth colLength colLoad fcu side thickness =
     (let maxColDim = Math_max colWidth colLength;
          cantileverLength = (side * Fin 1000 - maxColDim) / Fin 2;
          ulsLoad = colLoad * lit 1.4;
          ulsPressure = ulsLoad / (side * side);
          momentAtFace = (ulsPressure * cantileverLength * cantileverLength) / (Fin 2 * Fin 1000000);
          effectiveDepth = thickness - Fin 75;
          k = (momentAtFace * Fin 1000000) / (Fin 1000 * effectiveDepth * effectiveDepth * fcu);
          z = effectiveDepth * Math_min (lit 0.5 + Math_sqrt (lit 0.25 - k / lit 0.9)) (lit 0.95);
          steelAreaReq = (momentAtFace * Fin 1000000) / (lit 0.95 * FY * z);
          minSteelArea = lit 0.0013 * Fin 1000 * thickness;
          finalSteelArea = Math_max steelAreaReq minSteelArea;
          steel0 = ''T12 @ 250mm'';
          steel1 = (if Fin 452 < finalSteelArea then ''T12 @ 200mm'' else steel0);
          steel2 = (if Fin 565 < finalSteelArea then ''T16 @ 250mm'' else steel1);
          steel3 = (if Fin 804 < finalSteelArea then ''T16 @ 200mm'' else steel2)
      in if Fin 1005 < finalSteelArea then ''T20 @ 250mm'' else steel3)"

definition kFactor_A :: "number \<Rightarrow> number \<Rightarrow> number \<Rightarrow> number \<Rightarrow> number" where
  "kFactor_A M b d fcu = (M * Fin 1000000) / (b * d * d * fcu)"

definition calculateDesign_A :: "DesignInput_A \<Rightarrow> DesignResult_A option" where
  "calculateDesign_A inputs =
     (let colWidth = orElse (parseFloat (inA_colWidth inputs)) (Fin 200);
          colLength = orElse (parseFloat (inA_colLength inputs)) (Fin 200);
          colHeight = orElse (parseFloat (inA_colHeight inputs)) (Fin 3000);
          colSpacing = orElse (parseFloat (inA_colSpacing inputs)) (lit 4.0);
          colLoad = orElse (parseFloat (inA_colLoad inputs)) (Fin 500);
          soilCapacity = orElse (parseFloat (inA_soilCapacity inputs)) (Fin 150);
          fcu = orElse (parseFloat (inA_fcu inputs)) (Fin 25);
          groundBeamL = orElse (parseFloat (inA_groundBeamSpan inputs)) (lit 4.0)
      in if falsy colWidth \<or> falsy colLength \<or> falsy colLoad \<or> falsy soilCapacity
         then None
         else
          (let colCapacity = colCapacity_design colWidth colLength fcu;
               requiredFootingArea = colLoad / soilCapacity;
               footingSize = footingSide colLoad soilCapacity;
               actualBearingPressure = bearingPressureOf colLoad footingSize;
               footingThickness = footingThicknessOf colWidth colLength;
               estimatedLoad = colLoad / colSpacing;
               groundBeamWidth = Math_max (Fin 200) (Math_max colWidth colLength * lit 0.8);
               groundBeamDepth =
                 Math_max (Fin 300) (Math_min (Fin 600) (Math_ceil (groundBeamL * Fin 1000 / Fin 12)));
               groundBeamM = spanMoment estimatedLoad groundBeamL;
               groundBeamV = endReaction estimatedLoad groundBeamL;
               d = groundBeamDepth - Fin 50;
               k_beam = kFactor_A groundBeamM groundBeamWidth d fcu;
               ground = designSection k_beam groundBeamM groundBeamV groundBeamWidth groundBeamDepth
                          d fcu ''R8-250'' ''R10 @ 175mm'' ''R8 @ 200mm''
           in Some \<lparr> colSize_A = Math_max colWidth colLength,
                     colLoad_A = colLoad,
                     colCapacity_A = toFixed2 colCapacity,
                     colStatus_A = colStatusOf colLoad colCapacity,
                     footingSize_A = toFixed2 footingSize,
                     footingThickness_A = footingThickness,
                     footingSteel_A =
                       footingSteel_design colWidth colLength colLoad fcu footingSize footingThickness,
                     footingStatus_A = footingStatusOf actualBearingPressure soilCapacity,
                     groundBeamWidth_A = groundBeamWidth,
                     groundBeamDepth_A = groundBeamDepth,
                     groundBeamMoment_A = toFixed2 groundBeamM,
                     groundBeamShear_A = toFixed2 groundBeamV,
                     groundBeamAsRequired_A = Math_round (sAsRequired ground),
                     groundBeamMainBar_A = sMainBar ground,
                     groundBeamTopBar_A = ''2T12 (Hangers)'',
                     groundBeamShearLinks_A = sShearLinks ground,
                     groundBeamStatus_A = sStatus ground,
                     groundBeamUtilization_A = utilizationOf k_beam,
                     bearingPressure_A = toFixed2 actualBearingPressure,
                     requiredFootingArea_A = toFixed2 requiredFootingArea \<rparr>))"

subsection \<open>The initial input state of the two suites\<close>

definition defaultInputs :: DesignInput where
  "defaultInputs =
     \<lparr> in_span = Text (Fin 4), in_width = Text (Fin 150), in_depth = Text (Fin 450),
       in_fcu = Text (Fin 25), in_tributaryWidth = Text (Fin 3), in_wallHeight = Text (Fin 3),
       in_liveLoad = Text (lit 1.5), in_colHeight = Text (Fin 3), in_soilCapacity = Text (Fin 150),
       in_groundBeamSpan = Text (Fin 3), in_groundBeamWidth = Text (Fin 200),
       in_groundBeamDepth = Text (Fin 350), in_groundBeamLoad = Text (Fin 10) \<rparr>"

definition defaultInputs_A :: DesignInput_A where
  "defaultInputs_A =
     \<lparr> inA_colWidth = Text (Fin 200), inA_colLength = Text (Fin 200),
       inA_colHeight = Text (Fin 3000), inA_colSpacing = Text (Fin 4),
       inA_colLoad = Text (Fin 500), inA_soilCapacity = Text (Fin 150),
       inA_fcu = Text (Fin 25), inA_groundBeamSpan = Text (Fin 4) \<rparr>"

section \<open>Properties of the rounding\<close>

lemma ulp_pos: "0 < ulp x"
  by (simp add: ulp_def)

lemma rte_of_int: "roundTiesToEven (of_int n) = n"
  by (simp add: roundTiesToEven_def)

lemma rte_cases: "roundTiesToEven y = \<lfloor>y\<rfloor> \<or> roundTiesToEven y = \<lfloor>y\<rfloor> + 1"
  by (simp add: roundTiesToEven_def Let_def)

lemma rte_mono: "x \<le> y \<Longrightarrow> roundTiesToEven x \<le> roundTiesToEven y"
proof -
  assume xy: "x \<le> y"
  have fl: "\<lfloor>x\<rfloor> \<le> \<lfloor>y\<rfloor>" using xy by (rule floor_mono)
  show ?thesis
  proof (cases "\<lfloor>x\<rfloor> = \<lfloor>y\<rfloor>")
    case True
    then show ?thesis using xy by (auto simp: roundTiesToEven_def Let_def)
  next
    case False
    with fl have "\<lfloor>x\<rfloor> + 1 \<le> \<lfloor>y\<rfloor>" by simp
    moreover have "roundTiesToEven x \<le> \<lfloor>x\<rfloor> + 1" using rte_cases[of x] by auto
    moreover have "\<lfloor>y\<rfloor> \<le> roundTiesToEven y" using rte_cases[of y] by auto
    ultimately show ?thesis by linarith
  qed
qed

lemma rte_eqI: "of_int m - 1 / 2 < y \<Longrightarrow> y < of_int m + 1 / 2 \<Longrightarrow> roundTiesToEven y = m"
proof -
  assume a: "of_int m - 1 / 2 < y" and b: "y < of_int m + 1 / 2"
  show ?thesis
  proof (cases "of_int m \<le> y")
    case True
    then have "\<lfloor>y\<rfloor> = m" using b by (intro floor_unique) auto
    then show ?thesis using b by (simp add: roundTiesToEven_def Let_def)
  next
    case False
    then have "\<lfloor>y\<rfloor> = m - 1" using a by (intro floor_unique) auto
    then show ?thesis using a False by (simp add: roundTiesToEven_def Let_def)
  qed
qed

lemma rte_neg: "roundTiesToEven (- y) = - roundTiesToEven y"
proof (cases "y = of_int \<lfloor>y\<rfloor>")
  case True
  then obtain n where "y = of_int n" by metis
  then show ?thesis by (simp add: rte_of_int flip: of_int_minus)
next
  case False
  then have lt: "of_int \<lfloor>y\<rfloor> < y" by (metis of_int_floor_le order_less_le)
  have fn: "\<lfloor>- y\<rfloor> = - \<lfloor>y\<rfloor> - 1"
    by (intro floor_unique) (use lt in \<open>auto simp: \<close>, linarith)
  show ?thesis
    using lt by (auto simp: roundTiesToEven_def Let_def fn)
qed

lemma rte_error: "\<bar>of_int (roundTiesToEven y) - y\<bar> \<le> 1 / 2"
  by (auto simp: roundTiesToEven_def Let_def abs_le_iff)

lemma log_bounds:
  assumes "x \<noteq> 0"
  shows "2 powr of_int \<lfloor>log 2 \<bar>x\<bar>\<rfloor> \<le> \<bar>x\<bar>" and "\<bar>x\<bar> < 2 powr (of_int \<lfloor>log 2 \<bar>x\<bar>\<rfloor> + 1)"
  using floor_log_eq_powr_iff[of "\<bar>x\<bar>" 2 "\<lfloor>log 2 \<bar>x\<bar>\<rfloor>"] assms by auto

lemma expo_ge: "- 1022 \<le> expo x"
  by (simp add: expo_def)

lemma expo_eq:
  assumes "2 powr of_int e \<le> \<bar>x\<bar>" "\<bar>x\<bar> < 2 powr (of_int e + 1)" "- 1022 \<le> e"
  shows "expo x = e"
proof -
  have pos: "0 < \<bar>x\<bar>" using assms(1) by (smt (verit) powr_gt_zero)
  then have "\<lfloor>log 2 \<bar>x\<bar>\<rfloor> = e"
    using floor_log_eq_powr_iff[of "\<bar>x\<bar>" 2 e] assms by auto
  then show ?thesis using assms(3) pos by (simp add: expo_def)
qed

lemma expo_neg: "expo (- x) = expo x"
  by (simp add: expo_def)

lemma ulp_neg: "ulp (- x) = ulp x"
  by (simp add: ulp_def expo_neg)

lemma rnd_neg: "rnd (- x) = - rnd x"
  by (simp add: rnd_def ulp_neg rte_neg)

lemma rnd_zero: "rnd 0 = 0"
  by (simp add: rnd_def rte_of_int[of 0, simplified])

text \<open>The rounded value is within half a unit in the last place of the exact one.\<close>

lemma rnd_error: "\<bar>rnd x - x\<bar> \<le> ulp x / 2"
proof -
  have u: "0 < ulp x" by (rule ulp_pos)
  have "\<bar>rnd x - x\<bar> = \<bar>(of_int (roundTiesToEven (x / ulp x)) - x / ulp x) * ulp x\<bar>"
    using u by (simp add: rnd_def left_diff_distrib)
  also have "\<dots> = \<bar>of_int (roundTiesToEven (x / ulp x)) - x / ulp x\<bar> * ulp x"
    using u by (simp add: abs_mult)
  also have "\<dots> \<le> 1 / 2 * ulp x"
    using rte_error[of "x / ulp x"] u by (intro mult_right_mono) simp_all
  finally show ?thesis by simp
qed

lemma abs_lt_ulp_bound: "\<bar>x\<bar> < 2 powr (of_int (expo x) + 1)"
proof (cases "x = 0")
  case True
  then show ?thesis by simp
next
  case False
  have "\<bar>x\<bar> < 2 powr (of_int \<lfloor>log 2 \<bar>x\<bar>\<rfloor> + 1)" using log_bounds(2)[OF False] .
  also have "\<dots> \<le> 2 powr (of_int (expo x) + 1)"
    using False by (intro powr_mono) (simp_all add: expo_def)
  finally show ?thesis .
qed

lemma scaled_lt: "\<bar>x\<bar> / ulp x < 2 ^ 53"
proof -
  have "\<bar>x\<bar> / ulp x < 2 powr (of_int (expo x) + 1) / ulp x"
    using abs_lt_ulp_bound[of x] ulp_pos[of x] by (simp add: divide_strict_right_mono)
  also have "\<dots> = 2 powr 53"
    by (simp add: ulp_def flip: powr_diff)
  also have "\<dots> = 2 ^ 53"
    by (simp add: powr_numeral)
  finally show ?thesis .
qed

lemma scaled_ge:
  assumes "- 1022 < expo x"
  shows "2 ^ 52 \<le> \<bar>x\<bar> / ulp x"
proof -
  have nz: "x \<noteq> 0" using assms by (auto simp: expo_def)
  then have e: "expo x = \<lfloor>log 2 \<bar>x\<bar>\<rfloor>" using assms by (simp add: expo_def max_def split: if_splits)
  have "2 powr 52 = 2 powr of_int (expo x) / ulp x"
    by (simp add: ulp_def flip: powr_diff)
  also have "\<dots> \<le> \<bar>x\<bar> / ulp x"
    using log_bounds(1)[OF nz] ulp_pos[of x] by (simp add: e divide_right_mono)
  finally show ?thesis by (simp add: powr_numeral)
qed

lemma pow53_ulp: "2 ^ 53 * ulp x = 2 powr (of_int (expo x) + 1)"
proof -
  have "(2::real) ^ 53 = 2 powr 53" by (simp add: powr_numeral)
  then have "2 ^ 53 * ulp x = 2 powr 53 * 2 powr (of_int (expo x) - 52)" by (simp only: ulp_def)
  also have "\<dots> = 2 powr (53 + (of_int (expo x) - 52))" by (simp only: powr_add)
  also have "53 + (of_int (expo x) - 52) = real_of_int (expo x) + 1" by simp
  finally show ?thesis .
qed

lemma pow52_ulp: "2 ^ 52 * ulp x = 2 powr of_int (expo x)"
proof -
  have "(2::real) ^ 52 = 2 powr 52" by (simp add: powr_numeral)
  then have "2 ^ 52 * ulp x = 2 powr 52 * 2 powr (of_int (expo x) - 52)" by (simp only: ulp_def)
  also have "\<dots> = 2 powr (52 + (of_int (expo x) - 52))" by (simp only: powr_add)
  also have "52 + (of_int (expo x) - 52) = real_of_int (expo x)" by simp
  finally show ?thesis .
qed

lemma rnd_nonneg: "0 \<le> x \<Longrightarrow> 0 \<le> rnd x"
proof -
  assume "0 \<le> x"
  then have "0 \<le> x / ulp x" using ulp_pos[of x] by simp
  then have "roundTiesToEven 0 \<le> roundTiesToEven (x / ulp x)" by (rule rte_mono)
  then have "0 \<le> roundTiesToEven (x / ulp x)" using rte_of_int[of 0] by simp
  then show ?thesis using ulp_pos[of x] by (simp add: rnd_def)
qed

lemma rnd_upper:
  assumes "0 \<le> x"
  shows "rnd x \<le> 2 powr (of_int (expo x) + 1)"
proof -
  have "x / ulp x \<le> 2 ^ 53" using scaled_lt[of x] assms by simp
  then have "roundTiesToEven (x / ulp x) \<le> roundTiesToEven (of_int (2 ^ 53))"
    by (intro rte_mono) simp
  then have "roundTiesToEven (x / ulp x) \<le> 2 ^ 53" by (simp only: rte_of_int)
  then have "real_of_int (roundTiesToEven (x / ulp x)) \<le> 2 ^ 53"
    by (metis of_int_le_iff of_int_numeral of_int_power)
  then have "rnd x \<le> 2 ^ 53 * ulp x"
    unfolding rnd_def using ulp_pos[of x] by (simp add: mult_right_mono)
  also have "\<dots> = 2 powr (of_int (expo x) + 1)" by (rule pow53_ulp)
  finally show ?thesis .
qed

lemma rnd_lower:
  assumes "0 < x" "- 1022 < expo x"
  shows "2 powr of_int (expo x) \<le> rnd x"
proof -
  have "2 ^ 52 \<le> x / ulp x" using scaled_ge[OF assms(2)] assms(1) by simp
  then have "roundTiesToEven (of_int (2 ^ 52)) \<le> roundTiesToEven (x / ulp x)"
    by (intro rte_mono) simp
  then have "2 ^ 52 \<le> roundTiesToEven (x / ulp x)" by (simp only: rte_of_int)
  then have "2 ^ 52 \<le> real_of_int (roundTiesToEven (x / ulp x))"
    by (metis of_int_le_iff of_int_numeral of_int_power)
  then have "2 ^ 52 * ulp x \<le> rnd x"
    unfolding rnd_def using ulp_pos[of x] by (simp add: mult_right_mono)
  then show ?thesis by (simp only: pow52_ulp)
qed

lemma expo_mono:
  assumes "0 < x" "x \<le> y"
  shows "expo x \<le> expo y"
proof -
  have "log 2 \<bar>x\<bar> \<le> log 2 \<bar>y\<bar>" using assms by simp
  then have "\<lfloor>log 2 \<bar>x\<bar>\<rfloor> \<le> \<lfloor>log 2 \<bar>y\<bar>\<rfloor>" by (rule floor_mono)
  then show ?thesis using assms by (simp add: expo_def)
qed

lemma rnd_mono_pos:
  assumes "0 < x" "x \<le> y"
  shows "rnd x \<le> rnd y"
proof (cases "expo x = expo y")
  case True
  then have u: "ulp x = ulp y" by (simp add: ulp_def)
  have "x / ulp y \<le> y / ulp y" using assms(2) ulp_pos[of y] by (simp add: divide_right_mono)
  then have "roundTiesToEven (x / ulp y) \<le> roundTiesToEven (y / ulp y)" by (rule rte_mono)
  then show ?thesis using ulp_pos[of y] by (simp add: rnd_def u mult_right_mono)
next
  case False
  then have lt: "expo x < expo y" using expo_mono[OF assms] by simp
  have "rnd x \<le> 2 powr (of_int (expo x) + 1)" using rnd_upper[of x] assms(1) by simp
  also have "\<dots> \<le> 2 powr of_int (expo y)" using lt by (intro powr_mono) simp_all
  also have "\<dots> \<le> rnd y"
    using rnd_lower[of y] assms lt expo_ge[of x] by simp
  finally show ?thesis .
qed

lemma rnd_mono:
  assumes "x \<le> y"
  shows "rnd x \<le> rnd y"
proof -
  consider "0 < x" | "x \<le> 0" "0 \<le> y" | "y < 0" by linarith
  then show ?thesis
  proof cases
    case 1
    then show ?thesis using rnd_mono_pos assms by simp
  next
    case 2
    have "rnd x \<le> 0" using rnd_nonneg[of "- x"] 2(1) by (simp add: rnd_neg)
    also have "0 \<le> rnd y" using rnd_nonneg 2(2) by simp
    finally show ?thesis .
  next
    case 3
    then have "rnd (- y) \<le> rnd (- x)" using assms by (intro rnd_mono_pos) simp_all
    then show ?thesis by (simp add: rnd_neg)
  qed
qed

lemma rnd_repr:
  assumes m: "\<bar>m\<bar> < 2 ^ 53" and k: "- 1074 \<le> k"
  shows "rnd (of_int m * 2 powr of_int k) = of_int m * 2 powr of_int k"
proof (cases "m = 0")
  case True
  then show ?thesis by (simp add: rnd_zero)
next
  case False
  define x where "x = real_of_int m * 2 powr of_int k"
  have nz: "x \<noteq> 0" using False by (simp add: x_def)
  have "\<bar>x\<bar> = real_of_int \<bar>m\<bar> * 2 powr of_int k" by (simp add: x_def abs_mult)
  also have "\<dots> < 2 ^ 53 * 2 powr of_int k"
  proof -
    have "real_of_int \<bar>m\<bar> < 2 ^ 53" using m by (metis of_int_less_iff of_int_numeral of_int_power)
    then show ?thesis by simp
  qed
  also have "\<dots> = 2 powr (of_int k + 53)" by (simp add: powr_add powr_numeral)
  finally have lt: "\<bar>x\<bar> < 2 powr (of_int k + 53)" .
  have "log 2 \<bar>x\<bar> < of_int k + 53"
    using lt nz by (simp add: log_less_iff)
  then have "\<lfloor>log 2 \<bar>x\<bar>\<rfloor> < k + 53" by linarith
  then have e: "expo x \<le> k + 52" using k nz by (simp add: expo_def)
  define n where "n = nat (k + 52 - expo x)"
  have "x / ulp x = real_of_int m * 2 powr (of_int k - (of_int (expo x) - 52))"
    by (simp add: x_def ulp_def powr_diff)
  also have "of_int k - (of_int (expo x) - 52) = real n" using e by (simp add: n_def)
  also have "real_of_int m * 2 powr real n = of_int (m * 2 ^ n)" by (simp add: powr_realpow)
  finally have "roundTiesToEven (x / ulp x) = m * 2 ^ n" by (simp only: rte_of_int)
  then have "rnd x = real_of_int (m * 2 ^ n) * ulp x" by (simp add: rnd_def)
  also have "\<dots> = real_of_int m * (2 powr real n * ulp x)" by (simp add: powr_realpow)
  also have "2 powr real n * ulp x = 2 powr of_int k"
    unfolding ulp_def using e by (simp add: n_def flip: powr_add)
  finally show ?thesis by (simp add: x_def)
qed

lemma rnd_of_int: "\<bar>n\<bar> < 2 ^ 53 \<Longrightarrow> rnd (of_int n) = of_int n"
  using rnd_repr[of n 0] by simp

lemma rnd_eval_pos:
  assumes "2 ^ 52 \<le> x * 2 ^ j" "x * 2 ^ j < 2 ^ 53" "j \<le> 1074"
  shows "rnd x = of_int (roundTiesToEven (x * 2 ^ j)) / 2 ^ j"
proof -
  have pos: "0 < x" using assms(1) by (smt (verit) mult_nonpos_nonneg zero_le_power zero_less_power)
  have p: "2 powr (real_of_int (52 - int j)) = 2 ^ 52 / 2 ^ j"
    by (simp add: powr_diff powr_realpow powr_numeral)
  have p1: "2 powr (real_of_int (52 - int j) + 1) = 2 ^ 53 / 2 ^ j"
    by (simp add: powr_diff powr_add powr_realpow powr_numeral)
  have a: "(2::real) ^ 52 / 2 ^ j \<le> x"
    using assms(1) by (simp only: pos_divide_le_eq zero_less_power zero_less_numeral)
  have b: "x < (2::real) ^ 53 / 2 ^ j"
    using assms(2) by (simp only: pos_less_divide_eq zero_less_power zero_less_numeral)
  have "expo x = 52 - int j"
  proof (rule expo_eq)
    show "2 powr real_of_int (52 - int j) \<le> \<bar>x\<bar>" unfolding p using a pos by simp
    show "\<bar>x\<bar> < 2 powr (real_of_int (52 - int j) + 1)" unfolding p1 using b pos by simp
    show "- 1022 \<le> 52 - int j" using assms(3) by simp
  qed
  then have "ulp x = 1 / 2 ^ j" by (simp add: ulp_def powr_minus powr_realpow inverse_eq_divide)
  then show ?thesis by (simp add: rnd_def)
qed

section \<open>Properties of the number operations\<close>

lemma fl_not_NaN: "fl x \<noteq> NaN"
  by (simp add: fl_def Let_def)

lemma lit_not_NaN: "lit x \<noteq> NaN"
  by (simp add: lit_def fl_not_NaN)

lemma le_number_refl: "x \<noteq> NaN \<Longrightarrow> x \<le> (x::number)"
  by (cases x) simp_all

lemma less_number_irrefl: "\<not> x < (x::number)"
  by (cases x) simp_all

lemma times_number_commute: "x * y = y * (x::number)"
  by (cases x; cases y) (simp_all add: mult.commute)

lemma fl_Fin: "\<bar>rnd x\<bar> < 2 ^ 1024 \<Longrightarrow> fl x = Fin (rnd x)"
  by (auto simp: fl_def Let_def)

lemma fl_eval_pos:
  assumes "2 ^ 52 \<le> x * 2 ^ j" "x * 2 ^ j < 2 ^ 53" "j \<le> 1074"
  shows "fl x = Fin (of_int (roundTiesToEven (x * 2 ^ j)) / 2 ^ j)"
proof -
  have r: "rnd x = of_int (roundTiesToEven (x * 2 ^ j)) / 2 ^ j"
    using assms by (rule rnd_eval_pos)
  have "roundTiesToEven (x * 2 ^ j) \<le> roundTiesToEven (of_int (2 ^ 53))"
    using assms(2) by (intro rte_mono) simp
  then have "roundTiesToEven (x * 2 ^ j) \<le> 2 ^ 53" by (simp only: rte_of_int)
  then have u: "real_of_int (roundTiesToEven (x * 2 ^ j)) \<le> 2 ^ 53"
    by (metis of_int_le_iff of_int_numeral of_int_power)
  have "roundTiesToEven (of_int (2 ^ 52)) \<le> roundTiesToEven (x * 2 ^ j)"
    using assms(1) by (intro rte_mono) simp
  then have "2 ^ 52 \<le> roundTiesToEven (x * 2 ^ j)" by (simp only: rte_of_int)
  then have l: "2 ^ 52 \<le> real_of_int (roundTiesToEven (x * 2 ^ j))"
    by (metis of_int_le_iff of_int_numeral of_int_power)
  have "rnd x \<le> 2 ^ 53"
  proof -
    have "rnd x \<le> real_of_int (roundTiesToEven (x * 2 ^ j)) / 1"
      unfolding r using l by (intro divide_left_mono) simp_all
    then show ?thesis using u by simp
  qed
  moreover have "0 \<le> rnd x" unfolding r using l by simp
  ultimately have "\<bar>rnd x\<bar> < 2 ^ 1024" by simp
  then show ?thesis using r by (simp add: fl_Fin)
qed

lemma fl_of_int: "\<bar>n\<bar> < 2 ^ 53 \<Longrightarrow> fl (of_int n) = Fin (of_int n)"
proof -
  assume n: "\<bar>n\<bar> < 2 ^ 53"
  then have r: "rnd (of_int n) = of_int n" by (rule rnd_of_int)
  have "\<bar>real_of_int n\<bar> < 2 ^ 53"
    using n by (metis of_int_abs of_int_less_iff of_int_numeral of_int_power)
  then have "\<bar>real_of_int n\<bar> < 2 ^ 1024" by simp
  then show ?thesis by (simp add: fl_Fin r)
qed

lemma fl_numeral: "(numeral k :: int) < 2 ^ 53 \<Longrightarrow> fl (numeral k) = Fin (numeral k)"
  using fl_of_int[of "numeral k"] by simp

lemma fl_zero: "fl 0 = Fin 0"
  using fl_of_int[of 0] by simp

lemma fl_sqrt_eval:
  assumes lo: "2 ^ 104 \<le> q * (2 ^ j)\<^sup>2" and hi: "q * (2 ^ j)\<^sup>2 < 2 ^ 106"
    and m: "0 < m" and j: "j \<le> 1074"
    and below: "(2 * of_int m - 1)\<^sup>2 < 4 * (q * (2 ^ j)\<^sup>2)"
    and above: "4 * (q * (2 ^ j)\<^sup>2) < (2 * of_int m + 1)\<^sup>2"
  shows "fl (sqrt q) = Fin (of_int m / 2 ^ j)"
proof -
  define y where "y = sqrt q * 2 ^ j"
  have y: "y = sqrt (q * (2 ^ j)\<^sup>2)" by (simp add: y_def real_sqrt_mult)
  have "sqrt ((2 ^ 52)\<^sup>2) \<le> y" unfolding y using lo by (intro real_sqrt_le_mono) simp
  then have a: "2 ^ 52 \<le> y" by simp
  have "y < sqrt ((2 ^ 53)\<^sup>2)" unfolding y using hi by (intro real_sqrt_less_mono) simp
  then have b: "y < 2 ^ 53" by simp
  have "(of_int m - 1 / 2)\<^sup>2 = (2 * of_int m - 1)\<^sup>2 / (4::real)"
    by (simp add: power2_eq_square field_simps)
  then have "(of_int m - 1 / 2)\<^sup>2 < q * (2 ^ j)\<^sup>2" using below by simp
  then have c: "of_int m - 1 / 2 < y" unfolding y by (rule real_less_rsqrt)
  have "(of_int m + 1 / 2)\<^sup>2 = (2 * of_int m + 1)\<^sup>2 / (4::real)"
    by (simp add: power2_eq_square field_simps)
  then have "q * (2 ^ j)\<^sup>2 < (of_int m + 1 / 2)\<^sup>2" using above by simp
  moreover have "0 \<le> real_of_int m + 1 / 2" using m by simp
  ultimately have d: "y < of_int m + 1 / 2" unfolding y by (intro real_less_lsqrt) simp_all
  have "roundTiesToEven y = m" using c d by (rule rte_eqI)
  then show ?thesis using fl_eval_pos[of "sqrt q" j] a b j by (simp add: y_def)
qed

lemma le_PInf: "x \<noteq> NaN \<Longrightarrow> x \<le> PInf"
  by (cases x) simp_all

lemma fl_nonneg: "0 \<le> x \<Longrightarrow> Fin 0 \<le> fl x"
  using rnd_nonneg[of x] by (simp add: fl_def Let_def)

lemma fl_mono: "x \<le> y \<Longrightarrow> fl x \<le> fl y"
  using rnd_mono[of x y] by (simp add: fl_def Let_def)

lemma sqrt_lift:
  assumes "Fin 0 \<le> X" "X \<le> Y"
  shows "Fin 0 \<le> Math_sqrt X \<and> Math_sqrt X \<le> Math_sqrt Y"
  using assms by (cases X; cases Y) (simp_all add: fl_mono fl_nonneg le_PInf fl_not_NaN)

lemma times_lift:
  assumes "Fin 0 \<le> X" "X \<le> Y" "0 < c"
  shows "Fin 0 \<le> X * Fin c \<and> X * Fin c \<le> Y * Fin c"
  using assms
  by (cases X; cases Y) (simp_all add: fl_mono fl_nonneg le_PInf fl_not_NaN sgnInf_def)

lemma ceil_lift:
  assumes "Fin 0 \<le> X" "X \<le> Y"
  shows "Fin 0 \<le> Math_ceil X \<and> Math_ceil X \<le> Math_ceil Y"
  using assms by (cases X; cases Y) (simp_all add: ceiling_mono)

lemma divide_lift:
  assumes "Fin 0 \<le> X" "X \<le> Y" "0 < c"
  shows "Fin 0 \<le> X / Fin c \<and> X / Fin c \<le> Y / Fin c"
  using assms
  by (cases X; cases Y) (simp_all add: fl_mono fl_nonneg le_PInf fl_not_NaN divide_right_mono)

lemma selectMainBar_not_None: "selectMainBar x \<noteq> ''None''"
  by (simp add: selectMainBar_def)

section \<open>The results in terms of the inputs\<close>

text \<open>
  The column suite always produces a result (its defaults make the guard unreachable);
  the footing fields of the result are these functions of the parsed load and soil
  capacity.
\<close>

lemma calculateDesign_A_footing:
  "\<exists>r. calculateDesign_A inputs = Some r
     \<and> requiredFootingArea_A r =
         toFixed2 (orElse (parseFloat (inA_colLoad inputs)) (Fin 500)
                   / orElse (parseFloat (inA_soilCapacity inputs)) (Fin 150))
     \<and> footingSize_A r =
         toFixed2 (footingSide (orElse (parseFloat (inA_colLoad inputs)) (Fin 500))
                               (orElse (parseFloat (inA_soilCapacity inputs)) (Fin 150)))
     \<and> bearingPressure_A r =
         toFixed2 (bearingPressureOf (orElse (parseFloat (inA_colLoad inputs)) (Fin 500))
                     (footingSide (orElse (parseFloat (inA_colLoad inputs)) (Fin 500))
                                  (orElse (parseFloat (inA_soilCapacity inputs)) (Fin 150))))
     \<and> footingStatus_A r =
         footingStatusOf
           (bearingPressureOf (orElse (parseFloat (inA_colLoad inputs)) (Fin 500))
              (footingSide (orElse (parseFloat (inA_colLoad inputs)) (Fin 500))
                           (orElse (parseFloat (inA_soilCapacity inputs)) (Fin 150))))
           (orElse (parseFloat (inA_soilCapacity inputs)) (Fin 150))"
  by (simp add: calculateDesign_A_def Let_def orElse_def falsy_def)

lemma calculateDesign_A_column:
  "\<exists>r. calculateDesign_A inputs = Some r
     \<and> colLoad_A r = orElse (parseFloat (inA_colLoad inputs)) (Fin 500)
     \<and> colStatus_A r =
         colStatusOf (colLoad_A r)
           (colCapacity_design (orElse (parseFloat (inA_colWidth inputs)) (Fin 200))
              (orElse (parseFloat (inA_colLength inputs)) (Fin 200))
              (orElse (parseFloat (inA_fcu inputs)) (Fin 25)))"
  by (simp add: calculateDesign_A_def Let_def orElse_def falsy_def)

text \<open>
  The beam suite produces a result whenever the span is accepted; the fields of the
  result are these functions of the parsed inputs.
\<close>

lemma calculateDesign_result:
  assumes "\<not> spanRejected (parseFloat (in_span inputs))"
  shows "\<exists>r. calculateDesign inputs = Some r \<and>
     (let L = parseFloat (in_span inputs);
          fcu = parseFloat (in_fcu inputs);
          trib = parseFloat (orText (in_tributaryWidth inputs) (Fin 0));
          wallH = parseFloat (orText (in_wallHeight inputs) (Fin 0));
          LL = parseFloat (orText (in_liveLoad inputs) (lit 1.5));
          soil = parseFloat (orText (in_soilCapacity inputs) (Fin 150));
          colH = parseFloat (orText (in_colHeight inputs) (lit 3.0));
          h = autoDepth L (parseFloat (in_width inputs)) (parseFloat (in_depth inputs));
          b = autoWidth L (parseFloat (in_width inputs)) (parseFloat (in_depth inputs));
          w = beamUDL b h trib wallH LL;
          M = spanMoment w L;
          R = endReaction w L;
          d = effDepth h;
          K = kFactor M b d fcu;
          beam = designSection K M R b h d fcu ''R6-250'' ''R8 @ 175mm'' ''R6 @ 200mm''
      in width r = b \<and> depth r = h \<and> totalUDL r = toFixed2 w \<and> moment r = toFixed2 M
         \<and> reaction r = toFixed2 R \<and> asRequired r = Math_round (sAsRequired beam)
         \<and> mainBar r = sMainBar beam \<and> shearLinks r = sShearLinks beam
         \<and> status r = sStatus beam \<and> utilization r = utilizationOf K
         \<and> colStatus r = colStatusOf (axialLoadOf R colH) (colCapacityOf fcu)
         \<and> footingSize r = footingSide (axialLoadOf R colH) soil)"
  using assms by (simp add: calculateDesign_def Let_def)

lemma designSection_failed:
  "flexuralCheck K = UNSAFE \<Longrightarrow>
   designSection K M V b h d fcu l0 l1 l2 =
     \<lparr> sStatus = UNSAFE, sMainBar = ''None'', sShearLinks = l0, sAsRequired = Fin 0 \<rparr>"
  by (simp add: designSection_def Let_def)

lemma designSection_passed:
  "flexuralCheck K = SAFE \<Longrightarrow>
   designSection K M V b h d fcu l0 l1 l2 =
     \<lparr> sStatus = (if lit 0.8 * Math_sqrt fcu < shearStress V b d then UNSAFE else SAFE),
       sMainBar = selectMainBar (steelRequired K M b h d),
       sShearLinks = (if lit 0.4 < shearStress V b d then l1 else l2),
       sAsRequired = steelRequired K M b h d \<rparr>"
  by (simp add: designSection_def Let_def)

section \<open>The claims\<close>

text \<open>
  Claim C1. The section design computes K = M * 1e6 / (b * d * d * fcu) (the column suite
  multiplies b * d * d from the left) and the flexural verdict is SAFE exactly when
  K <= 0.156; K equal to 0.156 is SAFE. The main bar stays "None" exactly when the
  flexural verdict is not SAFE.
\<close>

theorem flexural_verdict:
  "kFactor M b d fcu = (M * Fin 1000000) / (b * (d * d) * fcu)
   \<and> kFactor_A M b d fcu = (M * Fin 1000000) / (b * d * d * fcu)
   \<and> (flexuralCheck (kFactor M b d fcu) = SAFE \<longleftrightarrow> kFactor M b d fcu \<le> lit 0.156)
   \<and> (flexuralCheck (kFactor_A M b d fcu) = SAFE \<longleftrightarrow> kFactor_A M b d fcu \<le> lit 0.156)
   \<and> (kFactor M b d fcu = lit 0.156 \<longrightarrow> flexuralCheck (kFactor M b d fcu) = SAFE)
   \<and> (sMainBar (designSection (kFactor M b d fcu) M V b h d fcu l0 l1 l2) = ''None''
        \<longleftrightarrow> \<not> kFactor M b d fcu \<le> lit 0.156)"
  by (auto simp: kFactor_def kFactor_A_def Math_pow2_def flexuralCheck_def designSection_def Let_def
        selectMainBar_not_None le_number_refl lit_not_NaN)

text \<open>A section whose K is exactly 0.156: M = 156 kNm, b = 400, d = 500, fcu = 10.\<close>

lemma kFactor_boundary:
  "kFactor (Fin 156) (Fin 400) (Fin 500) (Fin 10) = lit 0.156"
proof -
  have s1: "Fin 156 * Fin 1000000 = Fin 156000000"
    by (simp add: fl_eval_pos[of _ 25] roundTiesToEven_def Let_def)
  have s2: "Fin 500 * Fin 500 = Fin 250000"
    by (simp add: fl_eval_pos[of _ 35] roundTiesToEven_def Let_def)
  have s3: "Fin 400 * Fin 250000 = Fin 100000000"
    by (simp add: fl_eval_pos[of _ 26] roundTiesToEven_def Let_def)
  have s4: "Fin 100000000 * Fin 10 = Fin 1000000000"
    by (simp add: fl_eval_pos[of _ 23] roundTiesToEven_def Let_def)
  have s5: "Fin 156000000 / Fin 1000000000 = Fin (5620492334958379 / 2 ^ 55)"
    by (simp add: fl_eval_pos[of _ 55] roundTiesToEven_def Let_def)
  have s6: "lit 0.156 = Fin (5620492334958379 / 2 ^ 55)"
    by (simp add: fl_eval_pos[of _ 55] roundTiesToEven_def Let_def lit_def)
  show ?thesis
    unfolding kFactor_def Math_pow2_def
    by (simp only: s1 s2 s3 s4 s5 s6 if_True if_False)
qed

theorem flexural_verdict_boundary_witness:
  "kFactor (Fin 156) (Fin 400) (Fin 500) (Fin 10) = lit 0.156
   \<and> flexuralCheck (kFactor (Fin 156) (Fin 400) (Fin 500) (Fin 10)) = SAFE"
  using flexural_verdict[of "Fin 156" "Fin 400" "Fin 500" "Fin 10"] kFactor_boundary by blast

text \<open>
  Claim C2. A section that passed the flexural check and whose shear stress
  v = V * 1000 / (b * d) exceeds 0.8 * sqrt(fcu) ends UNSAFE. The overall verdict is SAFE
  exactly when the flexural check passed and the shear stress does not exceed the limit:
  the shear test never replaces the flexural one.
\<close>

theorem shear_override:
  "shearStress V b d = (V * Fin 1000) / (b * d)
   \<and> (K \<le> lit 0.156 \<longrightarrow> lit 0.8 * Math_sqrt fcu < shearStress V b d \<longrightarrow>
      sStatus (designSection K M V b h d fcu l0 l1 l2) = UNSAFE)
   \<and> (sStatus (designSection K M V b h d fcu l0 l1 l2) = SAFE \<longleftrightarrow>
        K \<le> lit 0.156 \<and> \<not> lit 0.8 * Math_sqrt fcu < shearStress V b d)
   \<and> sStatus (designSection K M V b h d fcu l0 l1 l2) \<noteq> IDLE"
proof -
  have "shearStress V b d = (V * Fin 1000) / (b * d)"
    by (simp only: shearStress_def)
  moreover have "(K \<le> lit 0.156 \<longrightarrow> lit 0.8 * Math_sqrt fcu < shearStress V b d \<longrightarrow>
      sStatus (designSection K M V b h d fcu l0 l1 l2) = UNSAFE)
   \<and> (sStatus (designSection K M V b h d fcu l0 l1 l2) = SAFE \<longleftrightarrow>
        K \<le> lit 0.156 \<and> \<not> lit 0.8 * Math_sqrt fcu < shearStress V b d)
   \<and> sStatus (designSection K M V b h d fcu l0 l1 l2) \<noteq> IDLE"
    by (simp add: designSection_def Let_def flexuralCheck_def)
  ultimately show ?thesis by blast
qed

text \<open>A section that passes in flexure and fails in shear: M = 10 kNm, V = 200 kN, 150 x 300.\<close>

lemma kFactor_shear_example:
  "kFactor (Fin 10) (Fin 150) (Fin 257) (Fin 25) = Fin (5818516074464145 / 2 ^ 57)"
proof -
  have s1: "Fin 10 * Fin 1000000 = Fin 10000000"
    by (simp add: fl_eval_pos[of _ 29] roundTiesToEven_def Let_def)
  have s2: "Fin 257 * Fin 257 = Fin 66049"
    by (simp add: fl_eval_pos[of _ 36] roundTiesToEven_def Let_def)
  have s3: "Fin 150 * Fin 66049 = Fin 9907350"
    by (simp add: fl_eval_pos[of _ 29] roundTiesToEven_def Let_def)
  have s4: "Fin 9907350 * Fin 25 = Fin 247683750"
    by (simp add: fl_eval_pos[of _ 25] roundTiesToEven_def Let_def)
  have s5: "Fin 10000000 / Fin 247683750 = Fin (5818516074464145 / 2 ^ 57)"
    by (simp add: fl_eval_pos[of _ 57] roundTiesToEven_def Let_def)
  show ?thesis
    unfolding kFactor_def Math_pow2_def
    by (simp only: s1 s2 s3 s4 s5 if_True if_False)
qed

theorem shear_override_witness:
  "kFactor (Fin 10) (Fin 150) (Fin 257) (Fin 25) \<le> lit 0.156
   \<and> lit 0.8 * Math_sqrt (Fin 25) = Fin 4
   \<and> shearStress (Fin 200) (Fin 150) (Fin 257) = Fin (5841244652880021 / 2 ^ 50)
   \<and> lit 0.8 * Math_sqrt (Fin 25) < shearStress (Fin 200) (Fin 150) (Fin 257)
   \<and> sStatus (designSection (kFactor (Fin 10) (Fin 150) (Fin 257) (Fin 25)) (Fin 10) (Fin 200)
                (Fin 150) (Fin 300) (Fin 257) (Fin 25) ''R6-250'' ''R8 @ 175mm'' ''R6 @ 200mm'')
       = UNSAFE"
proof -
  have s1: "lit 0.156 = Fin (5620492334958379 / 2 ^ 55)"
    by (simp add: fl_eval_pos[of _ 55] roundTiesToEven_def Let_def lit_def)
  have s2: "Fin (5818516074464145 / 2 ^ 57) \<le> Fin (5620492334958379 / 2 ^ 55)"
    by simp
  have s3: "lit 0.8 = Fin (3602879701896397 / 2 ^ 52)"
    by (simp add: fl_eval_pos[of _ 53] roundTiesToEven_def Let_def lit_def)
  have s4: "Math_sqrt (Fin 25) = Fin 5"
    using fl_sqrt_eval[of "25" 50 5629499534213120] by simp
  have s5: "Fin (3602879701896397 / 2 ^ 52) * Fin 5 = Fin 4"
    by (simp add: fl_eval_pos[of _ 50] roundTiesToEven_def Let_def)
  have s6: "Fin 200 * Fin 1000 = Fin 200000"
    by (simp add: fl_eval_pos[of _ 35] roundTiesToEven_def Let_def)
  have s7: "Fin 150 * Fin 257 = Fin 38550"
    by (simp add: fl_eval_pos[of _ 37] roundTiesToEven_def Let_def)
  have s8: "Fin 200000 / Fin 38550 = Fin (5841244652880021 / 2 ^ 50)"
    by (simp add: fl_eval_pos[of _ 50] roundTiesToEven_def Let_def)
  have s9: "Fin 4 < Fin (5841244652880021 / 2 ^ 50)"
    by simp
  have k: "kFactor (Fin 10) (Fin 150) (Fin 257) (Fin 25) \<le> lit 0.156"
    unfolding kFactor_shear_example by (simp only: s1 s2)
  have lim: "lit 0.8 * Math_sqrt (Fin 25) = Fin 4"
    by (simp only: s3 s4 s5)
  note inst = shear_override[where K = "kFactor (Fin 10) (Fin 150) (Fin 257) (Fin 25)"
                 and fcu = "Fin 25" and V = "Fin 200" and b = "Fin 150" and d = "Fin 257"]
  have "shearStress (Fin 200) (Fin 150) (Fin 257) = Fin 200 * Fin 1000 / (Fin 150 * Fin 257)"
    using inst by (rule conjunct1)
  then have st: "shearStress (Fin 200) (Fin 150) (Fin 257) = Fin (5841244652880021 / 2 ^ 50)"
    by (simp only: s6 s7 s8)
  have v: "lit 0.8 * Math_sqrt (Fin 25) < shearStress (Fin 200) (Fin 150) (Fin 257)"
    unfolding st lim by (rule s9)
  show ?thesis
    using inst k lim st v by blast
qed
text \<open>
  Claim C3. For a section that passed the flexural check the main-bar callout is read
  off the required steel area by the step table: below 226 "2T12 Bottom", from 226 and
  below 402 "2T16 Bottom", from 402 and below 603 "3T16 Bottom", from 603 and below 942
  "3T20 Bottom", from 942 on "4T20 Bottom"; an area of exactly 226 selects
  "2T16 Bottom". A section that failed the flexural check keeps "None".
\<close>

theorem main_bar_step_table:
  "selectMainBar (Fin a) =
     (if a < 226 then ''2T12 Bottom''
      else if a < 402 then ''2T16 Bottom''
      else if a < 603 then ''3T16 Bottom''
      else if a < 942 then ''3T20 Bottom''
      else ''4T20 Bottom'')
   \<and> selectMainBar (Fin 226) = ''2T16 Bottom''
   \<and> selectMainBar PInf = ''4T20 Bottom''
   \<and> sMainBar (designSection K M V b h d fcu l0 l1 l2) =
       (if K \<le> lit 0.156 then selectMainBar (steelRequired K M b h d) else ''None'')"
  by (simp add: selectMainBar_def designSection_def Let_def flexuralCheck_def)

text \<open>
  A section whose required steel area is exactly 226: the initial inputs with a span of
  1 m, a width of 400 and a depth of 434.6153846153846, for which the minimum steel
  0.0013 * b * h evaluates to 226 and governs.
\<close>

lemma beamUDL_b226:
  "beamUDL (Fin 400) (Fin (7645834703919261 / 2 ^ 44)) (Fin 3) (Fin 3) (Fin (3 / 2 ^ 1)) = Fin (5736633240733453 / 2 ^ 47)"
proof -
  have s1: "Fin 400 / Fin 1000 = Fin (3602879701896397 / 2 ^ 53)"
    by (simp add: fl_eval_pos[of _ 54] roundTiesToEven_def Let_def)
  have s2: "Fin (7645834703919261 / 2 ^ 44) / Fin 1000 = Fin (7829334736813323 / 2 ^ 54)"
    by (simp add: fl_eval_pos[of _ 54] roundTiesToEven_def Let_def)
  have s3: "Fin (3602879701896397 / 2 ^ 53) * Fin (7829334736813323 / 2 ^ 54) = Fin (6263467789450659 / 2 ^ 55)"
    by (simp add: fl_eval_pos[of _ 55] roundTiesToEven_def Let_def)
  have s4: "Fin (6263467789450659 / 2 ^ 55) * Fin 24 = Fin (2348800421043997 / 2 ^ 49)"
    by (simp add: fl_eval_pos[of _ 50] roundTiesToEven_def Let_def)
  have s5: "lit 4.0 = Fin 4"
    by (simp add: fl_eval_pos[of _ 50] roundTiesToEven_def Let_def lit_def)
  have s6: "Fin 4 * Fin 3 = Fin 12"
    by (simp add: fl_eval_pos[of _ 49] roundTiesToEven_def Let_def)
  have s7: "Fin (2348800421043997 / 2 ^ 49) + Fin 12 = Fin (2276049965524935 / 2 ^ 47)"
    by (simp add: fl_eval_pos[of _ 48] roundTiesToEven_def Let_def)
  have s8: "lit 2.6 = Fin (5854679515581645 / 2 ^ 51)"
    by (simp add: fl_eval_pos[of _ 51] roundTiesToEven_def Let_def lit_def)
  have s9: "Fin (5854679515581645 / 2 ^ 51) * Fin 3 = Fin (2195504818343117 / 2 ^ 48)"
    by (simp add: fl_eval_pos[of _ 50] roundTiesToEven_def Let_def)
  have s10: "Fin (2276049965524935 / 2 ^ 47) + Fin (2195504818343117 / 2 ^ 48) = Fin (6747604749392987 / 2 ^ 48)"
    by (simp add: fl_eval_pos[of _ 48] roundTiesToEven_def Let_def)
  have s11: "Fin (3 / 2 ^ 1) * Fin 3 = Fin (9 / 2 ^ 1)"
    by (simp add: fl_eval_pos[of _ 50] roundTiesToEven_def Let_def)
  have s12: "lit 1.4 = Fin (3152519739159347 / 2 ^ 51)"
    by (simp add: fl_eval_pos[of _ 52] roundTiesToEven_def Let_def lit_def)
  have s13: "Fin (3152519739159347 / 2 ^ 51) * Fin (6747604749392987 / 2 ^ 48) = Fin (4723323324575091 / 2 ^ 47)"
    by (simp add: fl_eval_pos[of _ 47] roundTiesToEven_def Let_def)
  have s14: "lit 1.6 = Fin (3602879701896397 / 2 ^ 51)"
    by (simp add: fl_eval_pos[of _ 52] roundTiesToEven_def Let_def lit_def)
  have s15: "Fin (3602879701896397 / 2 ^ 51) * Fin (9 / 2 ^ 1) = Fin (8106479329266893 / 2 ^ 50)"
    by (simp add: fl_eval_pos[of _ 50] roundTiesToEven_def Let_def)
  have s16: "Fin (4723323324575091 / 2 ^ 47) + Fin (8106479329266893 / 2 ^ 50) = Fin (5736633240733453 / 2 ^ 47)"
    by (simp add: fl_eval_pos[of _ 47] roundTiesToEven_def Let_def)
  show ?thesis
    unfolding beamUDL_def Let_def CONCRETE_DENSITY_def SLAB_DL_UNIT_def WALL_DL_UNIT_def FY_def COVER_def GAMMA_G_def GAMMA_Q_def
    by (simp only: s1 s2 s3 s4 s5 s6 s7 s8 s9 s10 s11 s12 s13 s14 s15 s16 if_True if_False)
qed

lemma spanMoment_b226:
  "spanMoment (Fin (5736633240733453 / 2 ^ 47)) (Fin 1) = Fin (5736633240733453 / 2 ^ 50)"
proof -
  have s1: "Fin (5736633240733453 / 2 ^ 47) * Fin 1 = Fin (5736633240733453 / 2 ^ 47)"
    by (simp add: fl_eval_pos[of _ 47] roundTiesToEven_def Let_def)
  have s2: "Fin (5736633240733453 / 2 ^ 47) / Fin 8 = Fin (5736633240733453 / 2 ^ 50)"
    by (simp add: fl_eval_pos[of _ 50] roundTiesToEven_def Let_def)
  show ?thesis
    unfolding spanMoment_def
    by (simp only: s1 s2 if_True if_False)
qed

lemma endReaction_b226:
  "endReaction (Fin (5736633240733453 / 2 ^ 47)) (Fin 1) = Fin (5736633240733453 / 2 ^ 48)"
proof -
  have s1: "Fin (5736633240733453 / 2 ^ 47) * Fin 1 = Fin (5736633240733453 / 2 ^ 47)"
    by (simp add: fl_eval_pos[of _ 47] roundTiesToEven_def Let_def)
  have s2: "Fin (5736633240733453 / 2 ^ 47) / Fin 2 = Fin (5736633240733453 / 2 ^ 48)"
    by (simp add: fl_eval_pos[of _ 48] roundTiesToEven_def Let_def)
  show ?thesis
    unfolding endReaction_def
    by (simp only: s1 s2 if_True if_False)
qed

lemma effDepth_b226:
  "effDepth (Fin (7645834703919261 / 2 ^ 44)) = Fin (6889370704009373 / 2 ^ 44)"
proof -
  have s1: "Fin (7645834703919261 / 2 ^ 44) - Fin 25 = Fin (7206030052808861 / 2 ^ 44)"
    by (simp add: fl_eval_pos[of _ 44] roundTiesToEven_def Let_def minus_number_def)
  have s2: "Fin (7206030052808861 / 2 ^ 44) - Fin 8 = Fin (7065292564453533 / 2 ^ 44)"
    by (simp add: fl_eval_pos[of _ 44] roundTiesToEven_def Let_def minus_number_def)
  have s3: "Fin (7065292564453533 / 2 ^ 44) - Fin 10 = Fin (6889370704009373 / 2 ^ 44)"
    by (simp add: fl_eval_pos[of _ 44] roundTiesToEven_def Let_def minus_number_def)
  show ?thesis
    unfolding effDepth_def CONCRETE_DENSITY_def SLAB_DL_UNIT_def WALL_DL_UNIT_def FY_def COVER_def GAMMA_G_def GAMMA_Q_def
    by (simp only: s1 s2 s3 if_True if_False)
qed

lemma kFactor_b226:
  "kFactor (Fin (5736633240733453 / 2 ^ 50)) (Fin 400) (Fin (6889370704009373 / 2 ^ 44)) (Fin 25) = Fin (7660683994500781 / 2 ^ 61)"
proof -
  have s1: "Fin (5736633240733453 / 2 ^ 50) * Fin 1000000 = Fin (2735439892164923 / 2 ^ 29)"
    by (simp add: fl_eval_pos[of _ 30] roundTiesToEven_def Let_def)
  have s2: "Fin (6889370704009373 / 2 ^ 44) * Fin (6889370704009373 / 2 ^ 44) = Fin (2634749568367767 / 2 ^ 34)"
    by (simp add: fl_eval_pos[of _ 35] roundTiesToEven_def Let_def)
  have s3: "Fin 400 * Fin (2634749568367767 / 2 ^ 34) = Fin (1029199050143659 / 2 ^ 24)"
    by (simp add: fl_eval_pos[of _ 27] roundTiesToEven_def Let_def)
  have s4: "Fin (1029199050143659 / 2 ^ 24) * Fin 25 = Fin (6432494063397869 / 2 ^ 22)"
    by (simp add: fl_eval_pos[of _ 22] roundTiesToEven_def Let_def)
  have s5: "Fin (2735439892164923 / 2 ^ 29) / Fin (6432494063397869 / 2 ^ 22) = Fin (7660683994500781 / 2 ^ 61)"
    by (simp add: fl_eval_pos[of _ 61] roundTiesToEven_def Let_def)
  show ?thesis
    unfolding kFactor_def Math_pow2_def
    by (simp only: s1 s2 s3 s4 s5 if_True if_False)
qed

lemma flexuralCheck_b226:
  "flexuralCheck (Fin (7660683994500781 / 2 ^ 61)) = SAFE"
proof -
  have s1: "lit 0.156 = Fin (5620492334958379 / 2 ^ 55)"
    by (simp add: fl_eval_pos[of _ 55] roundTiesToEven_def Let_def lit_def)
  have s2: "Fin (7660683994500781 / 2 ^ 61) \<le> Fin (5620492334958379 / 2 ^ 55)"
    by simp
  show ?thesis
    unfolding flexuralCheck_def
    by (simp only: s1 s2 if_True if_False)
qed

lemma leverArm_b226:
  "leverArm (Fin (7660683994500781 / 2 ^ 61)) (Fin (6889370704009373 / 2 ^ 44)) = Fin (818112771101113 / 2 ^ 41)"
proof -
  have s1: "lit 0.25 = Fin (1 / 2 ^ 2)"
    by (simp add: fl_eval_pos[of _ 54] roundTiesToEven_def Let_def lit_def)
  have s2: "lit 0.9 = Fin (8106479329266893 / 2 ^ 53)"
    by (simp add: fl_eval_pos[of _ 53] roundTiesToEven_def Let_def lit_def)
  have s3: "Fin (7660683994500781 / 2 ^ 61) / Fin (8106479329266893 / 2 ^ 53) = Fin (2127967776250217 / 2 ^ 59)"
    by (simp add: fl_eval_pos[of _ 61] roundTiesToEven_def Let_def)
  have s4: "Fin (1 / 2 ^ 2) - Fin (2127967776250217 / 2 ^ 59) = Fin (8874201268725353 / 2 ^ 55)"
    by (simp add: fl_eval_pos[of _ 55] roundTiesToEven_def Let_def minus_number_def)
  have s5: "lit 0.5 = Fin (1 / 2 ^ 1)"
    by (simp add: fl_eval_pos[of _ 53] roundTiesToEven_def Let_def lit_def)
  have s6: "Math_sqrt (Fin (8874201268725353 / 2 ^ 55)) = Fin (8940452955755909 / 2 ^ 54)"
    using fl_sqrt_eval[of "8874201268725353 / 2 ^ 55" 54 8940452955755909] by simp
  have s7: "Fin (1 / 2 ^ 1) + Fin (8940452955755909 / 2 ^ 54) = Fin (4486913052624225 / 2 ^ 52)"
    by (simp add: fl_eval_pos[of _ 53] roundTiesToEven_def Let_def)
  have s8: "Fin (6889370704009373 / 2 ^ 44) * Fin (4486913052624225 / 2 ^ 52) = Fin (6863844456403223 / 2 ^ 44)"
    by (simp add: fl_eval_pos[of _ 44] roundTiesToEven_def Let_def)
  have s9: "lit 0.95 = Fin (4278419646001971 / 2 ^ 52)"
    by (simp add: fl_eval_pos[of _ 53] roundTiesToEven_def Let_def lit_def)
  have s10: "Fin (4278419646001971 / 2 ^ 52) * Fin (6889370704009373 / 2 ^ 44) = Fin (818112771101113 / 2 ^ 41)"
    by (simp add: fl_eval_pos[of _ 44] roundTiesToEven_def Let_def)
  have s11: "Math_min (Fin (6863844456403223 / 2 ^ 44)) (Fin (818112771101113 / 2 ^ 41)) = Fin (818112771101113 / 2 ^ 41)"
    by (simp add: Math_min_def)
  show ?thesis
    unfolding leverArm_def
    by (simp only: s1 s2 s3 s4 s5 s6 s7 s8 s9 s10 s11 if_True if_False)
qed

lemma steelRequired_b226:
  "steelRequired (Fin (7660683994500781 / 2 ^ 61)) (Fin (5736633240733453 / 2 ^ 50)) (Fin 400) (Fin (7645834703919261 / 2 ^ 44)) (Fin (6889370704009373 / 2 ^ 44)) = Fin 226"
proof -
  have s1: "Fin (5736633240733453 / 2 ^ 50) * Fin 1000000 = Fin (2735439892164923 / 2 ^ 29)"
    by (simp add: fl_eval_pos[of _ 30] roundTiesToEven_def Let_def)
  have s2: "lit 0.95 = Fin (4278419646001971 / 2 ^ 52)"
    by (simp add: fl_eval_pos[of _ 53] roundTiesToEven_def Let_def lit_def)
  have s3: "Fin (4278419646001971 / 2 ^ 52) * Fin 460 = Fin 437"
    by (simp add: fl_eval_pos[of _ 44] roundTiesToEven_def Let_def)
  have s4: "Fin 437 * Fin (818112771101113 / 2 ^ 41) = Fin (5586176265174787 / 2 ^ 35)"
    by (simp add: fl_eval_pos[of _ 35] roundTiesToEven_def Let_def)
  have s5: "Fin (2735439892164923 / 2 ^ 29) / Fin (5586176265174787 / 2 ^ 35) = Fin (8821294205017625 / 2 ^ 48)"
    by (simp add: fl_eval_pos[of _ 48] roundTiesToEven_def Let_def)
  have s6: "lit 0.0013 = Fin (1498797955988901 / 2 ^ 60)"
    by (simp add: fl_eval_pos[of _ 62] roundTiesToEven_def Let_def lit_def)
  have s7: "Fin (1498797955988901 / 2 ^ 60) * Fin 400 = Fin (1170935903116329 / 2 ^ 51)"
    by (simp add: fl_eval_pos[of _ 53] roundTiesToEven_def Let_def)
  have s8: "Fin (1170935903116329 / 2 ^ 51) * Fin (7645834703919261 / 2 ^ 44) = Fin 226"
    by (simp add: fl_eval_pos[of _ 45] roundTiesToEven_def Let_def)
  have s9: "Math_max (Fin (8821294205017625 / 2 ^ 48)) (Fin 226) = Fin 226"
    by (simp add: Math_max_def)
  show ?thesis
    unfolding steelRequired_def Let_def leverArm_b226 FY_def
    by (simp only: s1 s2 s3 s4 s5 s6 s7 s8 s9 if_True if_False)
qed

lemma shearStress_b226:
  "shearStress (Fin (5736633240733453 / 2 ^ 48)) (Fin 400) (Fin (6889370704009373 / 2 ^ 44)) = Fin (2343782585096363 / 2 ^ 54)"
proof -
  have s1: "Fin (5736633240733453 / 2 ^ 48) * Fin 1000 = Fin (5602180899153763 / 2 ^ 38)"
    by (simp add: fl_eval_pos[of _ 38] roundTiesToEven_def Let_def)
  have s2: "Fin 400 * Fin (6889370704009373 / 2 ^ 44) = Fin (5382320862507323 / 2 ^ 35)"
    by (simp add: fl_eval_pos[of _ 35] roundTiesToEven_def Let_def)
  have s3: "Fin (5602180899153763 / 2 ^ 38) / Fin (5382320862507323 / 2 ^ 35) = Fin (2343782585096363 / 2 ^ 54)"
    by (simp add: fl_eval_pos[of _ 55] roundTiesToEven_def Let_def)
  show ?thesis
    unfolding shearStress_def
    by (simp only: s1 s2 s3 if_True if_False)
qed

lemma boundary_section_result:
  "(let b = Fin 400; h = lit 434.6153846153846;
        w = beamUDL b h (Fin 3) (Fin 3) (lit 1.5);
        M = spanMoment w (Fin 1); d = effDepth h; K = kFactor M b d (Fin 25)
    in flexuralCheck K = SAFE \<and> steelRequired K M b h d = Fin 226)
   \<and> (\<exists>r. calculateDesign
             (defaultInputs\<lparr>in_span := Text (Fin 1), in_width := Text (Fin 400),
                in_depth := Text (lit 434.6153846153846)\<rparr>) = Some r
          \<and> status r = SAFE \<and> asRequired r = Fin 226 \<and> mainBar r = ''2T16 Bottom'')"
proof -
  let ?inp = "defaultInputs\<lparr>in_span := Text (Fin 1), in_width := Text (Fin 400),
                in_depth := Text (lit 434.6153846153846)\<rparr>"
  have p1: "lit 434.6153846153846 = Fin (7645834703919261 / 2 ^ 44)"
    by (simp add: fl_eval_pos[of _ 44] roundTiesToEven_def Let_def lit_def)
  have p2: "lit 1.5 = Fin (3 / 2 ^ 1)"
    by (simp add: fl_eval_pos[of _ 52] roundTiesToEven_def Let_def lit_def)
  have g1: "lit 0.8 = Fin (3602879701896397 / 2 ^ 52)"
    by (simp add: fl_eval_pos[of _ 53] roundTiesToEven_def Let_def lit_def)
  have g2: "Math_sqrt (Fin 25) = Fin 5"
    using fl_sqrt_eval[of "25" 50 5629499534213120] by simp
  have g3: "Fin (3602879701896397 / 2 ^ 52) * Fin 5 = Fin 4"
    by (simp add: fl_eval_pos[of _ 50] roundTiesToEven_def Let_def)
  have g4: "\<not> Fin 4 < Fin (2343782585096363 / 2 ^ 54)"
    by simp
  have g5: "lit 0.4 = Fin (3602879701896397 / 2 ^ 53)"
    by (simp add: fl_eval_pos[of _ 54] roundTiesToEven_def Let_def lit_def)
  have g6: "\<not> Fin (3602879701896397 / 2 ^ 53) < Fin (2343782585096363 / 2 ^ 54)"
    by simp
  have L: "parseFloat (in_span ?inp) = Fin 1" by (simp add: defaultInputs_def)
  have fcu: "parseFloat (in_fcu ?inp) = Fin 25" by (simp add: defaultInputs_def)
  have trib: "parseFloat (orText (in_tributaryWidth ?inp) (Fin 0)) = Fin 3"
    by (simp add: defaultInputs_def)
  have wallH: "parseFloat (orText (in_wallHeight ?inp) (Fin 0)) = Fin 3"
    by (simp add: defaultInputs_def)
  have "parseFloat (orText (in_liveLoad ?inp) (lit 1.5)) = lit 1.5"
    by (simp add: defaultInputs_def)
  then have LL: "parseFloat (orText (in_liveLoad ?inp) (lit 1.5)) = Fin (3 / 2 ^ 1)"
    unfolding p2 .
  have b0: "parseFloat (in_width ?inp) = Fin 400" by (simp add: defaultInputs_def)
  have "parseFloat (in_depth ?inp) = lit 434.6153846153846" by (simp add: defaultInputs_def)
  then have h0: "parseFloat (in_depth ?inp) = Fin (7645834703919261 / 2 ^ 44)" unfolding p1 .
  have hne: "Fin (7645834703919261 / 2 ^ 44) \<noteq> Fin 0" by simp
  have h: "autoDepth (Fin 1) (Fin 400) (Fin (7645834703919261 / 2 ^ 44)) = Fin (7645834703919261 / 2 ^ 44)"
    using hne by (simp add: autoDepth_def falsy_def)
  have b: "autoWidth (Fin 1) (Fin 400) (Fin (7645834703919261 / 2 ^ 44)) = Fin 400"
    using hne by (simp add: autoWidth_def falsy_def)
  have ok: "\<not> spanRejected (parseFloat (in_span ?inp))"
    unfolding L by (simp add: spanRejected_def falsy_def isNaN_def)
  have bar: "selectMainBar (Fin 226) = ''2T16 Bottom''" by (simp add: selectMainBar_def)
  have sec: "designSection (Fin (7660683994500781 / 2 ^ 61)) (Fin (5736633240733453 / 2 ^ 50)) (Fin (5736633240733453 / 2 ^ 48)) (Fin 400) (Fin (7645834703919261 / 2 ^ 44)) (Fin (6889370704009373 / 2 ^ 44)) (Fin 25)
               ''R6-250'' ''R8 @ 175mm'' ''R6 @ 200mm''
             = \<lparr> sStatus = SAFE, sMainBar = ''2T16 Bottom'', sShearLinks = ''R6 @ 200mm'',
                 sAsRequired = Fin 226 \<rparr>"
    unfolding designSection_passed[OF flexuralCheck_b226] steelRequired_b226 shearStress_b226 bar
    by (simp only: g1 g2 g3 g4 g5 g6 if_True if_False)
  have rd: "Math_round (Fin 226) = Fin 226" by simp
  have first: "(let b = Fin 400; h = lit 434.6153846153846;
        w = beamUDL b h (Fin 3) (Fin 3) (lit 1.5);
        M = spanMoment w (Fin 1); d = effDepth h; K = kFactor M b d (Fin 25)
    in flexuralCheck K = SAFE \<and> steelRequired K M b h d = Fin 226)"
    unfolding Let_def p1 p2 beamUDL_b226 spanMoment_b226 effDepth_b226 kFactor_b226
      flexuralCheck_b226 steelRequired_b226
    by simp
  have second: "\<exists>r. calculateDesign ?inp = Some r
          \<and> status r = SAFE \<and> asRequired r = Fin 226 \<and> mainBar r = ''2T16 Bottom''"
    using calculateDesign_result[OF ok]
    unfolding Let_def L fcu trib wallH LL b0 h0 h b beamUDL_b226 spanMoment_b226
      endReaction_b226 effDepth_b226 kFactor_b226 sec
    by (auto simp: rd)
  show ?thesis using first second by blast
qed

text \<open>
  Claim C4, as stated: a steel area equal to a boundary of the table selects the lower
  bar, so that 226 selects "2T12 Bottom". The code does not: the section above passes,
  needs exactly 226, and gets "2T16 Bottom".
\<close>

theorem boundary_226_not_lower_bar:
  "(let b = Fin 400; h = lit 434.6153846153846;
        w = beamUDL b h (Fin 3) (Fin 3) (lit 1.5);
        M = spanMoment w (Fin 1); d = effDepth h; K = kFactor M b d (Fin 25)
    in flexuralCheck K = SAFE \<and> steelRequired K M b h d = Fin 226)
   \<and> (\<exists>r. calculateDesign
             (defaultInputs\<lparr>in_span := Text (Fin 1), in_width := Text (Fin 400),
                in_depth := Text (lit 434.6153846153846)\<rparr>) = Some r
          \<and> status r = SAFE \<and> asRequired r = Fin 226 \<and> mainBar r = ''2T16 Bottom''
          \<and> mainBar r \<noteq> ''2T12 Bottom'')"
  using boundary_section_result by auto

text \<open>
  Claim C4, amended: a steel area equal to a boundary of the table (226, 402, 603 or
  942) selects the higher of the two adjacent bars.
\<close>

theorem boundary_selects_higher_bar:
  "selectMainBar (Fin 226) = ''2T16 Bottom'' \<and> selectMainBar (Fin 402) = ''3T16 Bottom''
   \<and> selectMainBar (Fin 603) = ''3T20 Bottom'' \<and> selectMainBar (Fin 942) = ''4T20 Bottom''"
  by (simp add: selectMainBar_def)

text \<open>The initial inputs of the column suite: 500 kN on 150 kPa.\<close>

lemma footingSide_500_150:
  "footingSide (Fin 500) (Fin 150) = Fin (4278419646001971 / 2 ^ 51)"
proof -
  have s1: "Fin 500 / Fin 150 = Fin (7505999378950827 / 2 ^ 51)"
    by (simp add: fl_eval_pos[of _ 51] roundTiesToEven_def Let_def)
  have s2: "Math_sqrt (Fin (7505999378950827 / 2 ^ 51)) = Fin (8222410352942271 / 2 ^ 52)"
    using fl_sqrt_eval[of "7505999378950827 / 2 ^ 51" 52 8222410352942271] by simp
  have s3: "Fin (8222410352942271 / 2 ^ 52) * Fin 10 = Fin (5139006470588919 / 2 ^ 48)"
    by (simp add: fl_eval_pos[of _ 48] roundTiesToEven_def Let_def)
  have s4: "Math_ceil (Fin (5139006470588919 / 2 ^ 48)) = Fin 19"
    by simp
  have s5: "Fin 19 / Fin 10 = Fin (4278419646001971 / 2 ^ 51)"
    by (simp add: fl_eval_pos[of _ 52] roundTiesToEven_def Let_def)
  show ?thesis
    unfolding footingSide_def Let_def
    by (simp only: s1 s2 s3 s4 s5 if_True if_False)
qed

lemma bearingPressureOf_500_150:
  "bearingPressureOf (Fin 500) (Fin (4278419646001971 / 2 ^ 51)) = Fin (4873181729755125 / 2 ^ 45)"
proof -
  have s1: "Fin (4278419646001971 / 2 ^ 51) * Fin (4278419646001971 / 2 ^ 51) = Fin (8128997327403745 / 2 ^ 51)"
    by (simp add: fl_eval_pos[of _ 51] roundTiesToEven_def Let_def)
  have s2: "Fin 500 / Fin (8128997327403745 / 2 ^ 51) = Fin (4873181729755125 / 2 ^ 45)"
    by (simp add: fl_eval_pos[of _ 45] roundTiesToEven_def Let_def)
  show ?thesis
    unfolding bearingPressureOf_def
    by (simp only: s1 s2 if_True if_False)
qed

lemma footingStatusOf_500_150:
  "footingStatusOf (Fin (4873181729755125 / 2 ^ 45)) (Fin 150) = SAFE"
proof -
  have s1: "Fin (4873181729755125 / 2 ^ 45) \<le> Fin 150"
    by simp
  show ?thesis
    unfolding footingStatusOf_def
    by (simp only: s1 if_True if_False)
qed

lemma defaultInputs_A_load: "orElse (parseFloat (inA_colLoad defaultInputs_A)) (Fin 500) = Fin 500"
  by (simp add: defaultInputs_A_def orElse_def falsy_def)

lemma defaultInputs_A_soil: "orElse (parseFloat (inA_soilCapacity defaultInputs_A)) (Fin 150) = Fin 150"
  by (simp add: defaultInputs_A_def orElse_def falsy_def)

lemma footing_500_150_reported:
  "toFixed2 (Fin 500 / Fin 150) = lit 3.33
   \<and> toFixed2 (footingSide (Fin 500) (Fin 150)) = lit 1.9
   \<and> toFixed2 (bearingPressureOf (Fin 500) (footingSide (Fin 500) (Fin 150))) = lit 138.5
   \<and> lit 1.9 \<noteq> lit 3.4"
proof -
  have s1: "Fin 500 / Fin 150 = Fin (7505999378950827 / 2 ^ 51)"
    by (simp add: fl_eval_pos[of _ 51] roundTiesToEven_def Let_def)
  have s2: "toFixed2 (Fin (4278419646001971 / 2 ^ 51)) = Fin (4278419646001971 / 2 ^ 51)"
    by (simp add: fl_eval_pos[of _ 52] roundTiesToEven_def Let_def)
  have s3: "toFixed2 (Fin (4873181729755125 / 2 ^ 45)) = Fin (277 / 2 ^ 1)"
    by (simp add: fl_eval_pos[of _ 45] roundTiesToEven_def Let_def)
  have s4: "toFixed2 (Fin (7505999378950827 / 2 ^ 51)) = Fin (1874623344892969 / 2 ^ 49)"
    by (simp add: fl_eval_pos[of _ 51] roundTiesToEven_def Let_def)
  have s5: "lit 1.9 = Fin (4278419646001971 / 2 ^ 51)"
    by (simp add: fl_eval_pos[of _ 52] roundTiesToEven_def Let_def lit_def)
  have s6: "lit 3.4 = Fin (7656119366529843 / 2 ^ 51)"
    by (simp add: fl_eval_pos[of _ 51] roundTiesToEven_def Let_def lit_def)
  have s7: "lit 3.33 = Fin (1874623344892969 / 2 ^ 49)"
    by (simp add: fl_eval_pos[of _ 51] roundTiesToEven_def Let_def lit_def)
  have s8: "lit 138.5 = Fin (277 / 2 ^ 1)"
    by (simp add: fl_eval_pos[of _ 45] roundTiesToEven_def Let_def lit_def)
  show ?thesis
    unfolding footingSide_500_150 bearingPressureOf_500_150
    by (simp only: s1 s2 s3 s4 s5 s6 s7 s8) simp
qed

lemma footing_500_150_computed:
  "footingSide (Fin 500) (Fin 150) = lit 1.9
   \<and> Fin 3.333 \<le> Fin 500 / Fin 150 \<and> Fin 500 / Fin 150 \<le> Fin 3.334
   \<and> Fin 138.5 \<le> bearingPressureOf (Fin 500) (lit 1.9)
   \<and> bearingPressureOf (Fin 500) (lit 1.9) \<le> Fin 138.51"
proof -
  have s1: "Fin 500 / Fin 150 = Fin (7505999378950827 / 2 ^ 51)"
    by (simp add: fl_eval_pos[of _ 51] roundTiesToEven_def Let_def)
  have s2: "toFixed2 (Fin (4278419646001971 / 2 ^ 51)) = Fin (4278419646001971 / 2 ^ 51)"
    by (simp add: fl_eval_pos[of _ 52] roundTiesToEven_def Let_def)
  have s3: "toFixed2 (Fin (4873181729755125 / 2 ^ 45)) = Fin (277 / 2 ^ 1)"
    by (simp add: fl_eval_pos[of _ 45] roundTiesToEven_def Let_def)
  have s4: "toFixed2 (Fin (7505999378950827 / 2 ^ 51)) = Fin (1874623344892969 / 2 ^ 49)"
    by (simp add: fl_eval_pos[of _ 51] roundTiesToEven_def Let_def)
  have s5: "lit 1.9 = Fin (4278419646001971 / 2 ^ 51)"
    by (simp add: fl_eval_pos[of _ 52] roundTiesToEven_def Let_def lit_def)
  have s6: "lit 3.4 = Fin (7656119366529843 / 2 ^ 51)"
    by (simp add: fl_eval_pos[of _ 51] roundTiesToEven_def Let_def lit_def)
  have s7: "lit 3.33 = Fin (1874623344892969 / 2 ^ 49)"
    by (simp add: fl_eval_pos[of _ 51] roundTiesToEven_def Let_def lit_def)
  have s8: "lit 138.5 = Fin (277 / 2 ^ 1)"
    by (simp add: fl_eval_pos[of _ 45] roundTiesToEven_def Let_def lit_def)
  show ?thesis
    by (simp only: s1 s5 footingSide_500_150 bearingPressureOf_500_150) simp
qed

text \<open>
  Claim C5, amended: for a soil capacity of 150 kPa and a column load of 500 kN the footing
  stage computes the required area 500/150 (between 3.333 and 3.334, reported as 3.33), a
  side of 1.9 m (the root of the area, 1.826, rounded up to the next 0.1), a bearing
  pressure of 500/(1.9 * 1.9) (between 138.50 and 138.51, reported as 138.5 kPa) and the
  verdict SAFE.
\<close>

theorem footing_500_150:
  "(\<exists>r. calculateDesign_A defaultInputs_A = Some r
      \<and> requiredFootingArea_A r = lit 3.33
      \<and> footingSize_A r = lit 1.9
      \<and> bearingPressure_A r = lit 138.5
      \<and> footingStatus_A r = SAFE)
   \<and> footingSide (Fin 500) (Fin 150) = lit 1.9
   \<and> Fin 3.333 \<le> Fin 500 / Fin 150 \<and> Fin 500 / Fin 150 \<le> Fin 3.334
   \<and> Fin 138.5 \<le> bearingPressureOf (Fin 500) (lit 1.9)
   \<and> bearingPressureOf (Fin 500) (lit 1.9) \<le> Fin 138.51"
proof -
  have "\<exists>r. calculateDesign_A defaultInputs_A = Some r
      \<and> requiredFootingArea_A r = lit 3.33
      \<and> footingSize_A r = lit 1.9
      \<and> bearingPressure_A r = lit 138.5
      \<and> footingStatus_A r = SAFE"
    using calculateDesign_A_footing[of defaultInputs_A] footing_500_150_reported
    unfolding defaultInputs_A_load defaultInputs_A_soil footingSide_500_150
      bearingPressureOf_500_150 footingStatusOf_500_150
    by auto
  then show ?thesis using footing_500_150_computed by blast
qed

text \<open>
  Claim C5, as stated, has the side round up to 3.4 m (and the pressure 500/(3.4 * 3.4));
  3.4 is the area rounded up, not its root. The code's side is not 3.4.
\<close>

theorem footing_500_150_side_not_3_4:
  "\<not> (\<exists>r. calculateDesign_A defaultInputs_A = Some r \<and> footingSize_A r = lit 3.4)"
  using calculateDesign_A_footing[of defaultInputs_A] footing_500_150_reported
  unfolding defaultInputs_A_load defaultInputs_A_soil footingSide_500_150
  by auto

text \<open>
  Claim C6. For a fixed positive axial load the footing side is antitone in the soil
  bearing capacity: a capacity that is not smaller gives a side that is not larger. Every
  operation of the side (quotient, root, product, ceiling, quotient) is monotone also
  after rounding.
\<close>

theorem footing_side_antitone:
  assumes "0 < a" "0 < s1" "s1 \<le> s2"
  shows "footingSide (Fin a) (Fin s2) \<le> footingSide (Fin a) (Fin s1)"
proof -
  have q: "a / s2 \<le> a / s1" using assms by (simp add: frac_le)
  have "0 \<le> a / s2" using assms by simp
  then have a0: "Fin 0 \<le> Fin a / Fin s2" using assms by (simp add: fl_nonneg)
  have a1: "Fin a / Fin s2 \<le> Fin a / Fin s1" using assms q by (simp add: fl_mono)
  note b = sqrt_lift[OF a0 a1]
  note c = times_lift[OF conjunct1[OF b] conjunct2[OF b], of 10]
  have c0: "Fin 0 \<le> Math_sqrt (Fin a / Fin s2) * Fin 10"
    and c1: "Math_sqrt (Fin a / Fin s2) * Fin 10 \<le> Math_sqrt (Fin a / Fin s1) * Fin 10"
    using c by simp_all
  note d = ceil_lift[OF c0 c1]
  note e = divide_lift[OF conjunct1[OF d] conjunct2[OF d], of 10]
  show ?thesis unfolding footingSide_def Let_def using e by simp
qed

theorem footing_side_antitone_witness:
  "footingSide (Fin 500) (Fin 200) \<le> footingSide (Fin 500) (Fin 150)"
  using footing_side_antitone[of 500 150 200] by simp

text \<open>
  Claim C7. The column verdict is SAFE exactly when the axial load is strictly below the
  capacity (a load equal to the capacity is UNSAFE); the capacity of the beam suite is
  (0.35 * fcu * Ac + 0.67 * fy * Asc) / 1000 with Ac = 200 * 200 = 40000, Asc = 0.008 * Ac
  and fy = 460. The column status of either suite is this comparison. The beam suite,
  whenever the span is accepted, returns a result whose column status compares the beam
  reaction plus the column's self weight, R + 0.2 * 0.2 * colH * 24 * 1.4, with that
  capacity. The column suite always returns a result; its column load is the entered
  load (500 where the field gives zero or no number) and its column status compares that
  load with the design-strength capacity
  (0.4 * (0.67 * fcu / 1.5) * Ac * (1 - 0.01) + 0.87 * (fy / 1.15) * Ac * 0.01) / 1000.
\<close>

theorem column_verdict_strict:
  "(colStatusOf axialLoad colCapacity = SAFE \<longleftrightarrow> axialLoad < colCapacity)
   \<and> colStatusOf x x = UNSAFE
   \<and> colCapacityOf fcu =
       (lit 0.35 * fcu * Fin 40000 + lit 0.67 * Fin 460 * (lit 0.008 * Fin 40000)) / Fin 1000
   \<and> axialLoadOf R' colH' = R' + lit 0.2 * lit 0.2 * colH' * Fin 24 * lit 1.4
   \<and> colCapacity_design cw cl fcu =
       (lit 0.4 * ((lit 0.67 * fcu) / lit 1.5) * (cw * cl * (Fin 1 - lit 0.01))
        + lit 0.87 * (Fin 460 / lit 1.15) * (cw * cl * lit 0.01)) / Fin 1000
   \<and> (\<not> spanRejected (parseFloat (in_span inputs)) \<longrightarrow>
       (\<exists>r. calculateDesign inputs = Some r \<and>
          (let L = parseFloat (in_span inputs);
               trib = parseFloat (orText (in_tributaryWidth inputs) (Fin 0));
               wallH = parseFloat (orText (in_wallHeight inputs) (Fin 0));
               LL = parseFloat (orText (in_liveLoad inputs) (lit 1.5));
               colH = parseFloat (orText (in_colHeight inputs) (lit 3.0));
               h = autoDepth L (parseFloat (in_width inputs)) (parseFloat (in_depth inputs));
               b = autoWidth L (parseFloat (in_width inputs)) (parseFloat (in_depth inputs));
               R = endReaction (beamUDL b h trib wallH LL) L
           in colStatus r =
                colStatusOf (axialLoadOf R colH) (colCapacityOf (parseFloat (in_fcu inputs))))))
   \<and> (\<exists>r. calculateDesign_A inputs' = Some r
          \<and> colLoad_A r = orElse (parseFloat (inA_colLoad inputs')) (Fin 500)
          \<and> colStatus_A r =
            colStatusOf (orElse (parseFloat (inA_colLoad inputs')) (Fin 500))
              (colCapacity_design (orElse (parseFloat (inA_colWidth inputs')) (Fin 200))
                 (orElse (parseFloat (inA_colLength inputs')) (Fin 200))
                 (orElse (parseFloat (inA_fcu inputs')) (Fin 25))))"
proof -
  have a: "(colStatusOf axialLoad colCapacity = SAFE \<longleftrightarrow> axialLoad < colCapacity)
     \<and> colStatusOf x x = UNSAFE
     \<and> colCapacityOf fcu =
       (lit 0.35 * fcu * Fin 40000 + lit 0.67 * Fin 460 * (lit 0.008 * Fin 40000)) / Fin 1000"
    by (simp add: colStatusOf_def less_number_irrefl colCapacityOf_def Let_def FY_def fl_numeral
          times_number_commute[of "Fin 40000"])
  have s: "axialLoadOf R' colH' = R' + lit 0.2 * lit 0.2 * colH' * Fin 24 * lit 1.4"
    by (simp only: axialLoadOf_def)
  have d: "colCapacity_design cw cl fcu =
       (lit 0.4 * ((lit 0.67 * fcu) / lit 1.5) * (cw * cl * (Fin 1 - lit 0.01))
        + lit 0.87 * (Fin 460 / lit 1.15) * (cw * cl * lit 0.01)) / Fin 1000"
    by (simp only: colCapacity_design_def Let_def FY_def)
  have b: "\<not> spanRejected (parseFloat (in_span inputs)) \<longrightarrow>
       (\<exists>r. calculateDesign inputs = Some r \<and>
          (let L = parseFloat (in_span inputs);
               trib = parseFloat (orText (in_tributaryWidth inputs) (Fin 0));
               wallH = parseFloat (orText (in_wallHeight inputs) (Fin 0));
               LL = parseFloat (orText (in_liveLoad inputs) (lit 1.5));
               colH = parseFloat (orText (in_colHeight inputs) (lit 3.0));
               h = autoDepth L (parseFloat (in_width inputs)) (parseFloat (in_depth inputs));
               b = autoWidth L (parseFloat (in_width inputs)) (parseFloat (in_depth inputs));
               R = endReaction (beamUDL b h trib wallH LL) L
           in colStatus r =
                colStatusOf (axialLoadOf R colH) (colCapacityOf (parseFloat (in_fcu inputs)))))"
  proof
    assume ok: "\<not> spanRejected (parseFloat (in_span inputs))"
    show "\<exists>r. calculateDesign inputs = Some r \<and>
          (let L = parseFloat (in_span inputs);
               trib = parseFloat (orText (in_tributaryWidth inputs) (Fin 0));
               wallH = parseFloat (orText (in_wallHeight inputs) (Fin 0));
               LL = parseFloat (orText (in_liveLoad inputs) (lit 1.5));
               colH = parseFloat (orText (in_colHeight inputs) (lit 3.0));
               h = autoDepth L (parseFloat (in_width inputs)) (parseFloat (in_depth inputs));
               b = autoWidth L (parseFloat (in_width inputs)) (parseFloat (in_depth inputs));
               R = endReaction (beamUDL b h trib wallH LL) L
           in colStatus r =
                colStatusOf (axialLoadOf R colH) (colCapacityOf (parseFloat (in_fcu inputs))))"
      using calculateDesign_result[OF ok] by (auto simp: Let_def)
  qed
  have c: "\<exists>r. calculateDesign_A inputs' = Some r
          \<and> colLoad_A r = orElse (parseFloat (inA_colLoad inputs')) (Fin 500)
          \<and> colStatus_A r =
            colStatusOf (orElse (parseFloat (inA_colLoad inputs')) (Fin 500))
              (colCapacity_design (orElse (parseFloat (inA_colWidth inputs')) (Fin 200))
                 (orElse (parseFloat (inA_colLength inputs')) (Fin 200))
                 (orElse (parseFloat (inA_fcu inputs')) (Fin 25)))"
    using calculateDesign_A_column[of inputs'] by auto
  show ?thesis using a s d b c by blast
qed

text \<open>
  The initial inputs of the two suites. Beam suite: span 4 m, 150 x 450, fcu 25, column
  height 3 m: the reaction is 74.376 kN, the axial load 78.408 kN, the capacity 448.624 kN,
  and the column is SAFE. Column suite: 200 x 200, fcu 25, load 500 kN: the capacity is
  316.08 kN and the column is UNSAFE.
\<close>

lemma beamUDL_default:
  "beamUDL (Fin 150) (Fin 450) (Fin 3) (Fin 3) (Fin (3 / 2 ^ 1)) = Fin (2616872858478969 / 2 ^ 46)"
proof -
  have s1: "Fin 150 / Fin 1000 = Fin (5404319552844595 / 2 ^ 55)"
    by (simp add: fl_eval_pos[of _ 55] roundTiesToEven_def Let_def)
  have s2: "Fin 450 / Fin 1000 = Fin (8106479329266893 / 2 ^ 54)"
    by (simp add: fl_eval_pos[of _ 54] roundTiesToEven_def Let_def)
  have s3: "Fin (5404319552844595 / 2 ^ 55) * Fin (8106479329266893 / 2 ^ 54) = Fin (607985949695017 / 2 ^ 53)"
    by (simp add: fl_eval_pos[of _ 56] roundTiesToEven_def Let_def)
  have s4: "Fin (607985949695017 / 2 ^ 53) * Fin 24 = Fin (1823957849085051 / 2 ^ 50)"
    by (simp add: fl_eval_pos[of _ 52] roundTiesToEven_def Let_def)
  have s5: "lit 4.0 = Fin 4"
    by (simp add: fl_eval_pos[of _ 50] roundTiesToEven_def Let_def lit_def)
  have s6: "Fin 4 * Fin 3 = Fin 12"
    by (simp add: fl_eval_pos[of _ 49] roundTiesToEven_def Let_def)
  have s7: "Fin (1823957849085051 / 2 ^ 50) + Fin 12 = Fin (3833689182799135 / 2 ^ 48)"
    by (simp add: fl_eval_pos[of _ 49] roundTiesToEven_def Let_def)
  have s8: "lit 2.6 = Fin (5854679515581645 / 2 ^ 51)"
    by (simp add: fl_eval_pos[of _ 51] roundTiesToEven_def Let_def lit_def)
  have s9: "Fin (5854679515581645 / 2 ^ 51) * Fin 3 = Fin (2195504818343117 / 2 ^ 48)"
    by (simp add: fl_eval_pos[of _ 50] roundTiesToEven_def Let_def)
  have s10: "Fin (3833689182799135 / 2 ^ 48) + Fin (2195504818343117 / 2 ^ 48) = Fin (1507298500285563 / 2 ^ 46)"
    by (simp add: fl_eval_pos[of _ 48] roundTiesToEven_def Let_def)
  have s11: "Fin (3 / 2 ^ 1) * Fin 3 = Fin (9 / 2 ^ 1)"
    by (simp add: fl_eval_pos[of _ 50] roundTiesToEven_def Let_def)
  have s12: "lit 1.4 = Fin (3152519739159347 / 2 ^ 51)"
    by (simp add: fl_eval_pos[of _ 52] roundTiesToEven_def Let_def lit_def)
  have s13: "Fin (3152519739159347 / 2 ^ 51) * Fin (1507298500285563 / 2 ^ 46) = Fin (527554475099947 / 2 ^ 44)"
    by (simp add: fl_eval_pos[of _ 48] roundTiesToEven_def Let_def)
  have s14: "lit 1.6 = Fin (3602879701896397 / 2 ^ 51)"
    by (simp add: fl_eval_pos[of _ 52] roundTiesToEven_def Let_def lit_def)
  have s15: "Fin (3602879701896397 / 2 ^ 51) * Fin (9 / 2 ^ 1) = Fin (8106479329266893 / 2 ^ 50)"
    by (simp add: fl_eval_pos[of _ 50] roundTiesToEven_def Let_def)
  have s16: "Fin (527554475099947 / 2 ^ 44) + Fin (8106479329266893 / 2 ^ 50) = Fin (2616872858478969 / 2 ^ 46)"
    by (simp add: fl_eval_pos[of _ 47] roundTiesToEven_def Let_def)
  show ?thesis
    unfolding beamUDL_def Let_def CONCRETE_DENSITY_def SLAB_DL_UNIT_def WALL_DL_UNIT_def FY_def COVER_def GAMMA_G_def GAMMA_Q_def
    by (simp only: s1 s2 s3 s4 s5 s6 s7 s8 s9 s10 s11 s12 s13 s14 s15 s16 if_True if_False)
qed

lemma endReaction_default:
  "endReaction (Fin (2616872858478969 / 2 ^ 46)) (Fin 4) = Fin (2616872858478969 / 2 ^ 45)"
proof -
  have s1: "Fin (2616872858478969 / 2 ^ 46) * Fin 4 = Fin (2616872858478969 / 2 ^ 44)"
    by (simp add: fl_eval_pos[of _ 45] roundTiesToEven_def Let_def)
  have s2: "Fin (2616872858478969 / 2 ^ 44) / Fin 2 = Fin (2616872858478969 / 2 ^ 45)"
    by (simp add: fl_eval_pos[of _ 46] roundTiesToEven_def Let_def)
  show ?thesis
    unfolding endReaction_def
    by (simp only: s1 s2 if_True if_False)
qed

lemma axialLoadOf_default:
  "axialLoadOf (Fin (2616872858478969 / 2 ^ 45)) (Fin 3) = Fin (5517472493482279 / 2 ^ 46)"
proof -
  have s1: "lit 0.2 = Fin (3602879701896397 / 2 ^ 54)"
    by (simp add: fl_eval_pos[of _ 55] roundTiesToEven_def Let_def lit_def)
  have s2: "Fin (3602879701896397 / 2 ^ 54) * Fin (3602879701896397 / 2 ^ 54) = Fin (1441151880758559 / 2 ^ 55)"
    by (simp add: fl_eval_pos[of _ 57] roundTiesToEven_def Let_def)
  have s3: "Fin (1441151880758559 / 2 ^ 55) * Fin 3 = Fin (4323455642275677 / 2 ^ 55)"
    by (simp add: fl_eval_pos[of _ 56] roundTiesToEven_def Let_def)
  have s4: "Fin (4323455642275677 / 2 ^ 55) * Fin 24 = Fin (1621295865853379 / 2 ^ 49)"
    by (simp add: fl_eval_pos[of _ 51] roundTiesToEven_def Let_def)
  have s5: "lit 1.4 = Fin (3152519739159347 / 2 ^ 51)"
    by (simp add: fl_eval_pos[of _ 52] roundTiesToEven_def Let_def lit_def)
  have s6: "Fin (1621295865853379 / 2 ^ 49) * Fin (3152519739159347 / 2 ^ 51) = Fin (4539628424389461 / 2 ^ 50)"
    by (simp add: fl_eval_pos[of _ 50] roundTiesToEven_def Let_def)
  have s7: "Fin (2616872858478969 / 2 ^ 45) + Fin (4539628424389461 / 2 ^ 50) = Fin (5517472493482279 / 2 ^ 46)"
    by (simp add: fl_eval_pos[of _ 46] roundTiesToEven_def Let_def)
  show ?thesis
    unfolding axialLoadOf_def
    by (simp only: s1 s2 s3 s4 s5 s6 s7 if_True if_False)
qed

lemma colCapacityOf_fcu25:
  "colCapacityOf (Fin 25) = Fin (1973069217997521 / 2 ^ 42)"
proof -
  have s1: "Fin 200 * Fin 200 = Fin 40000"
    by (simp add: fl_eval_pos[of _ 37] roundTiesToEven_def Let_def)
  have s2: "lit 0.008 = Fin (1152921504606847 / 2 ^ 57)"
    by (simp add: fl_eval_pos[of _ 59] roundTiesToEven_def Let_def lit_def)
  have s3: "Fin 40000 * Fin (1152921504606847 / 2 ^ 57) = Fin 320"
    by (simp add: fl_eval_pos[of _ 44] roundTiesToEven_def Let_def)
  have s4: "lit 0.35 = Fin (3152519739159347 / 2 ^ 53)"
    by (simp add: fl_eval_pos[of _ 54] roundTiesToEven_def Let_def lit_def)
  have s5: "Fin (3152519739159347 / 2 ^ 53) * Fin 25 = Fin (35 / 2 ^ 2)"
    by (simp add: fl_eval_pos[of _ 49] roundTiesToEven_def Let_def)
  have s6: "Fin (35 / 2 ^ 2) * Fin 40000 = Fin 350000"
    by (simp add: fl_eval_pos[of _ 34] roundTiesToEven_def Let_def)
  have s7: "lit 0.67 = Fin (6034823500676465 / 2 ^ 53)"
    by (simp add: fl_eval_pos[of _ 53] roundTiesToEven_def Let_def lit_def)
  have s8: "Fin (6034823500676465 / 2 ^ 53) * Fin 460 = Fin (1355477934722253 / 2 ^ 42)"
    by (simp add: fl_eval_pos[of _ 44] roundTiesToEven_def Let_def)
  have s9: "Fin (1355477934722253 / 2 ^ 42) * Fin 320 = Fin (6777389673611265 / 2 ^ 36)"
    by (simp add: fl_eval_pos[of _ 36] roundTiesToEven_def Let_def)
  have s10: "Fin 350000 + Fin (6777389673611265 / 2 ^ 36) = Fin 448624"
    by (simp add: fl_eval_pos[of _ 34] roundTiesToEven_def Let_def)
  have s11: "Fin 448624 / Fin 1000 = Fin (1973069217997521 / 2 ^ 42)"
    by (simp add: fl_eval_pos[of _ 44] roundTiesToEven_def Let_def)
  show ?thesis
    unfolding colCapacityOf_def Let_def FY_def
    by (simp only: s1 s2 s3 s4 s5 s6 s7 s8 s9 s10 s11 if_True if_False)
qed

lemma colCapacity_design_default:
  "colCapacity_design (Fin 200) (Fin 200) (Fin 25) = Fin (5560538164919009 / 2 ^ 44)"
proof -
  have s1: "Fin 200 * Fin 200 = Fin 40000"
    by (simp add: fl_eval_pos[of _ 37] roundTiesToEven_def Let_def)
  have s2: "lit 0.01 = Fin (5764607523034235 / 2 ^ 59)"
    by (simp add: fl_eval_pos[of _ 59] roundTiesToEven_def Let_def lit_def)
  have s3: "Fin 40000 * Fin (5764607523034235 / 2 ^ 59) = Fin 400"
    by (simp add: fl_eval_pos[of _ 44] roundTiesToEven_def Let_def)
  have s4: "Fin 1 - Fin (5764607523034235 / 2 ^ 59) = Fin (4458563631096791 / 2 ^ 52)"
    by (simp add: fl_eval_pos[of _ 53] roundTiesToEven_def Let_def minus_number_def)
  have s5: "Fin 40000 * Fin (4458563631096791 / 2 ^ 52) = Fin 39600"
    by (simp add: fl_eval_pos[of _ 37] roundTiesToEven_def Let_def)
  have s6: "lit 0.67 = Fin (6034823500676465 / 2 ^ 53)"
    by (simp add: fl_eval_pos[of _ 53] roundTiesToEven_def Let_def lit_def)
  have s7: "Fin (6034823500676465 / 2 ^ 53) * Fin 25 = Fin (67 / 2 ^ 2)"
    by (simp add: fl_eval_pos[of _ 48] roundTiesToEven_def Let_def)
  have s8: "lit 1.5 = Fin (3 / 2 ^ 1)"
    by (simp add: fl_eval_pos[of _ 52] roundTiesToEven_def Let_def lit_def)
  have s9: "Fin (67 / 2 ^ 2) / Fin (3 / 2 ^ 1) = Fin (6286274479871317 / 2 ^ 49)"
    by (simp add: fl_eval_pos[of _ 49] roundTiesToEven_def Let_def)
  have s10: "lit 1.15 = Fin (2589569785738035 / 2 ^ 51)"
    by (simp add: fl_eval_pos[of _ 52] roundTiesToEven_def Let_def lit_def)
  have s11: "Fin 460 / Fin (2589569785738035 / 2 ^ 51) = Fin (7036874417766401 / 2 ^ 44)"
    by (simp add: fl_eval_pos[of _ 44] roundTiesToEven_def Let_def)
  have s12: "lit 0.4 = Fin (3602879701896397 / 2 ^ 53)"
    by (simp add: fl_eval_pos[of _ 54] roundTiesToEven_def Let_def lit_def)
  have s13: "Fin (3602879701896397 / 2 ^ 53) * Fin (6286274479871317 / 2 ^ 49) = Fin (2514509791948527 / 2 ^ 49)"
    by (simp add: fl_eval_pos[of _ 50] roundTiesToEven_def Let_def)
  have s14: "Fin (2514509791948527 / 2 ^ 49) * Fin 39600 = Fin 176880"
    by (simp add: fl_eval_pos[of _ 35] roundTiesToEven_def Let_def)
  have s15: "lit 0.87 = Fin (7836263351624663 / 2 ^ 53)"
    by (simp add: fl_eval_pos[of _ 53] roundTiesToEven_def Let_def lit_def)
  have s16: "Fin (7836263351624663 / 2 ^ 53) * Fin (7036874417766401 / 2 ^ 44) = Fin (6122080743456769 / 2 ^ 44)"
    by (simp add: fl_eval_pos[of _ 44] roundTiesToEven_def Let_def)
  have s17: "Fin (6122080743456769 / 2 ^ 44) * Fin 400 = Fin (4782875580825601 / 2 ^ 35)"
    by (simp add: fl_eval_pos[of _ 35] roundTiesToEven_def Let_def)
  have s18: "Fin 176880 + Fin (4782875580825601 / 2 ^ 35) = Fin 316080"
    by (simp add: fl_eval_pos[of _ 34] roundTiesToEven_def Let_def)
  have s19: "Fin 316080 / Fin 1000 = Fin (5560538164919009 / 2 ^ 44)"
    by (simp add: fl_eval_pos[of _ 44] roundTiesToEven_def Let_def)
  show ?thesis
    unfolding colCapacity_design_def Let_def FY_def
    by (simp only: s1 s2 s3 s4 s5 s6 s7 s8 s9 s10 s11 s12 s13 s14 s15 s16 s17 s18 s19 if_True if_False)
qed

theorem column_verdict_strict_witness:
  "\<not> spanRejected (parseFloat (in_span defaultInputs))
   \<and> (\<exists>r. calculateDesign defaultInputs = Some r
          \<and> colStatus r = colStatusOf (Fin (5517472493482279 / 2 ^ 46)) (Fin (1973069217997521 / 2 ^ 42))
          \<and> colStatus r = SAFE)
   \<and> (\<exists>r. calculateDesign_A defaultInputs_A = Some r
          \<and> colLoad_A r = Fin 500
          \<and> colStatus_A r = colStatusOf (Fin 500) (Fin (5560538164919009 / 2 ^ 44))
          \<and> colStatus_A r = UNSAFE)"
proof -
  have q1: "lit 1.5 = Fin (3 / 2 ^ 1)"
    by (simp add: fl_eval_pos[of _ 52] roundTiesToEven_def Let_def lit_def)
  have L: "parseFloat (in_span defaultInputs) = Fin 4" by (simp add: defaultInputs_def)
  have fcu: "parseFloat (in_fcu defaultInputs) = Fin 25" by (simp add: defaultInputs_def)
  have trib: "parseFloat (orText (in_tributaryWidth defaultInputs) (Fin 0)) = Fin 3"
    by (simp add: defaultInputs_def)
  have wallH: "parseFloat (orText (in_wallHeight defaultInputs) (Fin 0)) = Fin 3"
    by (simp add: defaultInputs_def)
  have "parseFloat (orText (in_liveLoad defaultInputs) (lit 1.5)) = lit 1.5"
    by (simp add: defaultInputs_def)
  then have LL: "parseFloat (orText (in_liveLoad defaultInputs) (lit 1.5)) = Fin (3 / 2 ^ 1)"
    unfolding q1 .
  have colH: "parseFloat (orText (in_colHeight defaultInputs) (lit 3.0)) = Fin 3"
    by (simp add: defaultInputs_def)
  have b0: "parseFloat (in_width defaultInputs) = Fin 150" by (simp add: defaultInputs_def)
  have h0: "parseFloat (in_depth defaultInputs) = Fin 450" by (simp add: defaultInputs_def)
  have h: "autoDepth (Fin 4) (Fin 150) (Fin 450) = Fin 450"
    by (simp add: autoDepth_def falsy_def)
  have b: "autoWidth (Fin 4) (Fin 150) (Fin 450) = Fin 150"
    by (simp add: autoWidth_def falsy_def)
  have ok: "\<not> spanRejected (parseFloat (in_span defaultInputs))"
    unfolding L by (simp add: spanRejected_def falsy_def isNaN_def)
  have lt: "Fin (5517472493482279 / 2 ^ 46) < Fin (1973069217997521 / 2 ^ 42)"
    by simp
  have nlt: "\<not> Fin 500 < Fin (5560538164919009 / 2 ^ 44)"
    by simp
  have wA: "orElse (parseFloat (inA_colWidth defaultInputs_A)) (Fin 200) = Fin 200"
    by (simp add: defaultInputs_A_def orElse_def falsy_def)
  have lA: "orElse (parseFloat (inA_colLength defaultInputs_A)) (Fin 200) = Fin 200"
    by (simp add: defaultInputs_A_def orElse_def falsy_def)
  have fA: "orElse (parseFloat (inA_fcu defaultInputs_A)) (Fin 25) = Fin 25"
    by (simp add: defaultInputs_A_def orElse_def falsy_def)
  have pA: "orElse (parseFloat (inA_colLoad defaultInputs_A)) (Fin 500) = Fin 500"
    by (simp add: defaultInputs_A_def orElse_def falsy_def)
  note inst = column_verdict_strict[where inputs = defaultInputs and inputs' = defaultInputs_A]
  note verdict = inst[THEN conjunct1]
  note beam_part = inst[THEN conjunct2, THEN conjunct2, THEN conjunct2, THEN conjunct2,
                        THEN conjunct2, THEN conjunct1, rule_format, OF ok]
  note column_part = inst[THEN conjunct2, THEN conjunct2, THEN conjunct2, THEN conjunct2,
                          THEN conjunct2, THEN conjunct2]
  have safe: "colStatusOf (Fin (5517472493482279 / 2 ^ 46)) (Fin (1973069217997521 / 2 ^ 42)) = SAFE"
    unfolding verdict by (rule lt)
  have unsafe: "colStatusOf (Fin 500) (Fin (5560538164919009 / 2 ^ 44)) = UNSAFE"
    using nlt by (simp only: colStatusOf_def if_False)
  have beam: "\<exists>r. calculateDesign defaultInputs = Some r
          \<and> colStatus r = colStatusOf (Fin (5517472493482279 / 2 ^ 46)) (Fin (1973069217997521 / 2 ^ 42))"
    using beam_part
    unfolding Let_def L fcu trib wallH LL colH b0 h0 h b beamUDL_default endReaction_default
      axialLoadOf_default colCapacityOf_fcu25 .
  have col: "\<exists>r. calculateDesign_A defaultInputs_A = Some r
          \<and> colLoad_A r = Fin 500
          \<and> colStatus_A r = colStatusOf (Fin 500) (Fin (5560538164919009 / 2 ^ 44))"
    using column_part
    unfolding wA lA fA pA colCapacity_design_default .
  show ?thesis
    using ok beam col safe unsafe by auto
qed

text \<open>
  Claim C8. The beam suite produces no result exactly when the span field gives no
  number (it is missing or not numeric), zero, a negative number or minus infinity; there
  is no other outcome than no result or a complete result, and no step of the
  computation can throw. In particular a missing span, a span that is not numeric, a
  span of zero and a span below zero give no result, whatever the other fields hold.
\<close>

theorem no_result_iff_span_rejected:
  "(calculateDesign inputs = None \<longleftrightarrow>
     (case parseFloat (in_span inputs) of
        NaN \<Rightarrow> True | NInf \<Rightarrow> True | Fin x \<Rightarrow> x \<le> 0 | PInf \<Rightarrow> False))
   \<and> calculateDesign (inputs\<lparr>in_span := Blank\<rparr>) = None
   \<and> calculateDesign (inputs\<lparr>in_span := Text NaN\<rparr>) = None
   \<and> calculateDesign (inputs\<lparr>in_span := Text (Fin 0)\<rparr>) = None
   \<and> calculateDesign (inputs\<lparr>in_span := Text (Fin (- \<bar>x\<bar>))\<rparr>) = None"
proof -
  have "calculateDesign i = None \<longleftrightarrow>
     (case parseFloat (in_span i) of
        NaN \<Rightarrow> True | NInf \<Rightarrow> True | Fin x \<Rightarrow> x \<le> 0 | PInf \<Rightarrow> False)" for i
    by (cases "parseFloat (in_span i)")
       (simp_all add: calculateDesign_def Let_def spanRejected_def falsy_def isNaN_def)
  then show ?thesis by simp
qed

text \<open>
  The scenario of claim C9, operation by operation: span 4 m, no width and no depth, so
  that the depth is 300 and the width 150; tributary width 3 m, wall height 3 m, live load
  1.5 kPa, fcu 25.
\<close>

lemma autoDepth_span4:
  "Math_max (Fin 300) (Math_ceil ((Fin 4 * Fin 1000 / Fin 14) / Fin 25) * Fin 25) = Fin 300"
proof -
  have s1: "Fin 4 * Fin 1000 = Fin 4000"
    by (simp add: fl_eval_pos[of _ 41] roundTiesToEven_def Let_def)
  have s2: "Fin 4000 / Fin 14 = Fin (5026338869833143 / 2 ^ 44)"
    by (simp add: fl_eval_pos[of _ 44] roundTiesToEven_def Let_def)
  have s3: "Fin (5026338869833143 / 2 ^ 44) / Fin 25 = Fin (6433713753386423 / 2 ^ 49)"
    by (simp add: fl_eval_pos[of _ 49] roundTiesToEven_def Let_def)
  have s4: "Math_ceil (Fin (6433713753386423 / 2 ^ 49)) = Fin 12"
    by simp
  have s5: "Fin 12 * Fin 25 = Fin 300"
    by (simp add: fl_eval_pos[of _ 44] roundTiesToEven_def Let_def)
  have s6: "Math_max (Fin 300) (Fin 300) = Fin 300"
    by (simp add: Math_max_def)
  show ?thesis
    by (simp only: s1 s2 s3 s4 s5 s6 if_True if_False)
qed

lemma autoWidth_span4:
  "Math_max (Fin 150) (Math_ceil ((Fin 300 / lit 2.5) / Fin 25) * Fin 25) = Fin 150"
proof -
  have s1: "lit 2.5 = Fin (5 / 2 ^ 1)"
    by (simp add: fl_eval_pos[of _ 51] roundTiesToEven_def Let_def lit_def)
  have s2: "Fin 300 / Fin (5 / 2 ^ 1) = Fin 120"
    by (simp add: fl_eval_pos[of _ 46] roundTiesToEven_def Let_def)
  have s3: "Fin 120 / Fin 25 = Fin (5404319552844595 / 2 ^ 50)"
    by (simp add: fl_eval_pos[of _ 50] roundTiesToEven_def Let_def)
  have s4: "Math_ceil (Fin (5404319552844595 / 2 ^ 50)) = Fin 5"
    by simp
  have s5: "Fin 5 * Fin 25 = Fin 125"
    by (simp add: fl_eval_pos[of _ 46] roundTiesToEven_def Let_def)
  have s6: "Math_max (Fin 150) (Fin 125) = Fin 150"
    by (simp add: Math_max_def)
  show ?thesis
    by (simp only: s1 s2 s3 s4 s5 s6 if_True if_False)
qed

lemma beamUDL_span4:
  "beamUDL (Fin 150) (Fin 300) (Fin 3) (Fin 3) (Fin (3 / 2 ^ 1)) = Fin (2563674087880655 / 2 ^ 46)"
proof -
  have s1: "Fin 150 / Fin 1000 = Fin (5404319552844595 / 2 ^ 55)"
    by (simp add: fl_eval_pos[of _ 55] roundTiesToEven_def Let_def)
  have s2: "Fin 300 / Fin 1000 = Fin (5404319552844595 / 2 ^ 54)"
    by (simp add: fl_eval_pos[of _ 54] roundTiesToEven_def Let_def)
  have s3: "Fin (5404319552844595 / 2 ^ 55) * Fin (5404319552844595 / 2 ^ 54) = Fin (3242591731706757 / 2 ^ 56)"
    by (simp add: fl_eval_pos[of _ 57] roundTiesToEven_def Let_def)
  have s4: "Fin (3242591731706757 / 2 ^ 56) * Fin 24 = Fin (607985949695017 / 2 ^ 49)"
    by (simp add: fl_eval_pos[of _ 52] roundTiesToEven_def Let_def)
  have s5: "lit 4.0 = Fin 4"
    by (simp add: fl_eval_pos[of _ 50] roundTiesToEven_def Let_def lit_def)
  have s6: "Fin 4 * Fin 3 = Fin 12"
    by (simp add: fl_eval_pos[of _ 49] roundTiesToEven_def Let_def)
  have s7: "Fin (607985949695017 / 2 ^ 49) + Fin 12 = Fin (7363385390750761 / 2 ^ 49)"
    by (simp add: fl_eval_pos[of _ 49] roundTiesToEven_def Let_def)
  have s8: "lit 2.6 = Fin (5854679515581645 / 2 ^ 51)"
    by (simp add: fl_eval_pos[of _ 51] roundTiesToEven_def Let_def lit_def)
  have s9: "Fin (5854679515581645 / 2 ^ 51) * Fin 3 = Fin (2195504818343117 / 2 ^ 48)"
    by (simp add: fl_eval_pos[of _ 50] roundTiesToEven_def Let_def)
  have s10: "Fin (7363385390750761 / 2 ^ 49) + Fin (2195504818343117 / 2 ^ 48) = Fin (2938598756859249 / 2 ^ 47)"
    by (simp add: fl_eval_pos[of _ 48] roundTiesToEven_def Let_def)
  have s11: "Fin (3 / 2 ^ 1) * Fin 3 = Fin (9 / 2 ^ 1)"
    by (simp add: fl_eval_pos[of _ 50] roundTiesToEven_def Let_def)
  have s12: "lit 1.4 = Fin (3152519739159347 / 2 ^ 51)"
    by (simp add: fl_eval_pos[of _ 52] roundTiesToEven_def Let_def lit_def)
  have s13: "Fin (3152519739159347 / 2 ^ 51) * Fin (2938598756859249 / 2 ^ 47) = Fin (8228076519205897 / 2 ^ 48)"
    by (simp add: fl_eval_pos[of _ 48] roundTiesToEven_def Let_def)
  have s14: "lit 1.6 = Fin (3602879701896397 / 2 ^ 51)"
    by (simp add: fl_eval_pos[of _ 52] roundTiesToEven_def Let_def lit_def)
  have s15: "Fin (3602879701896397 / 2 ^ 51) * Fin (9 / 2 ^ 1) = Fin (8106479329266893 / 2 ^ 50)"
    by (simp add: fl_eval_pos[of _ 50] roundTiesToEven_def Let_def)
  have s16: "Fin (8228076519205897 / 2 ^ 48) + Fin (8106479329266893 / 2 ^ 50) = Fin (2563674087880655 / 2 ^ 46)"
    by (simp add: fl_eval_pos[of _ 47] roundTiesToEven_def Let_def)
  show ?thesis
    unfolding beamUDL_def Let_def CONCRETE_DENSITY_def SLAB_DL_UNIT_def WALL_DL_UNIT_def FY_def COVER_def GAMMA_G_def GAMMA_Q_def
    by (simp only: s1 s2 s3 s4 s5 s6 s7 s8 s9 s10 s11 s12 s13 s14 s15 s16 if_True if_False)
qed

lemma spanMoment_span4:
  "spanMoment (Fin (2563674087880655 / 2 ^ 46)) (Fin 4) = Fin (2563674087880655 / 2 ^ 45)"
proof -
  have s1: "Fin (2563674087880655 / 2 ^ 46) * Fin 4 = Fin (2563674087880655 / 2 ^ 44)"
    by (simp add: fl_eval_pos[of _ 45] roundTiesToEven_def Let_def)
  have s2: "Fin (2563674087880655 / 2 ^ 44) * Fin 4 = Fin (2563674087880655 / 2 ^ 42)"
    by (simp add: fl_eval_pos[of _ 43] roundTiesToEven_def Let_def)
  have s3: "Fin (2563674087880655 / 2 ^ 42) / Fin 8 = Fin (2563674087880655 / 2 ^ 45)"
    by (simp add: fl_eval_pos[of _ 46] roundTiesToEven_def Let_def)
  show ?thesis
    unfolding spanMoment_def
    by (simp only: s1 s2 s3 if_True if_False)
qed

lemma endReaction_span4:
  "endReaction (Fin (2563674087880655 / 2 ^ 46)) (Fin 4) = Fin (2563674087880655 / 2 ^ 45)"
proof -
  have s1: "Fin (2563674087880655 / 2 ^ 46) * Fin 4 = Fin (2563674087880655 / 2 ^ 44)"
    by (simp add: fl_eval_pos[of _ 45] roundTiesToEven_def Let_def)
  have s2: "Fin (2563674087880655 / 2 ^ 44) / Fin 2 = Fin (2563674087880655 / 2 ^ 45)"
    by (simp add: fl_eval_pos[of _ 46] roundTiesToEven_def Let_def)
  show ?thesis
    unfolding endReaction_def
    by (simp only: s1 s2 if_True if_False)
qed

lemma effDepth_span4:
  "effDepth (Fin 300) = Fin 257"
proof -
  have s1: "Fin 300 - Fin 25 = Fin 275"
    by (simp add: fl_eval_pos[of _ 44] roundTiesToEven_def Let_def minus_number_def)
  have s2: "Fin 275 - Fin 8 = Fin 267"
    by (simp add: fl_eval_pos[of _ 44] roundTiesToEven_def Let_def minus_number_def)
  have s3: "Fin 267 - Fin 10 = Fin 257"
    by (simp add: fl_eval_pos[of _ 44] roundTiesToEven_def Let_def minus_number_def)
  show ?thesis
    unfolding effDepth_def CONCRETE_DENSITY_def SLAB_DL_UNIT_def WALL_DL_UNIT_def FY_def COVER_def GAMMA_G_def GAMMA_Q_def
    by (simp only: s1 s2 s3 if_True if_False)
qed

lemma kFactor_span4:
  "kFactor (Fin (2563674087880655 / 2 ^ 45)) (Fin 150) (Fin 257) (Fin 25) = Fin (5299504440621943 / 2 ^ 54)"
proof -
  have s1: "Fin (2563674087880655 / 2 ^ 45) * Fin 1000000 = Fin 72864000"
    by (simp add: fl_eval_pos[of _ 26] roundTiesToEven_def Let_def)
  have s2: "Fin 257 * Fin 257 = Fin 66049"
    by (simp add: fl_eval_pos[of _ 36] roundTiesToEven_def Let_def)
  have s3: "Fin 150 * Fin 66049 = Fin 9907350"
    by (simp add: fl_eval_pos[of _ 29] roundTiesToEven_def Let_def)
  have s4: "Fin 9907350 * Fin 25 = Fin 247683750"
    by (simp add: fl_eval_pos[of _ 25] roundTiesToEven_def Let_def)
  have s5: "Fin 72864000 / Fin 247683750 = Fin (5299504440621943 / 2 ^ 54)"
    by (simp add: fl_eval_pos[of _ 54] roundTiesToEven_def Let_def)
  show ?thesis
    unfolding kFactor_def Math_pow2_def
    by (simp only: s1 s2 s3 s4 s5 if_True if_False)
qed

lemma flexuralCheck_span4:
  "flexuralCheck (Fin (5299504440621943 / 2 ^ 54)) = UNSAFE"
proof -
  have s1: "lit 0.156 = Fin (5620492334958379 / 2 ^ 55)"
    by (simp add: fl_eval_pos[of _ 55] roundTiesToEven_def Let_def lit_def)
  have s2: "\<not> Fin (5299504440621943 / 2 ^ 54) \<le> Fin (5620492334958379 / 2 ^ 55)"
    by simp
  show ?thesis
    unfolding flexuralCheck_def
    by (simp only: s1 s2 if_True if_False)
qed

lemma utilizationOf_span4:
  "utilizationOf (Fin (5299504440621943 / 2 ^ 54)) = Fin 100"
proof -
  have s1: "lit 0.156 = Fin (5620492334958379 / 2 ^ 55)"
    by (simp add: fl_eval_pos[of _ 55] roundTiesToEven_def Let_def lit_def)
  have s2: "Fin (5299504440621943 / 2 ^ 54) / Fin (5620492334958379 / 2 ^ 55) = Fin (2123198894479945 / 2 ^ 50)"
    by (simp add: fl_eval_pos[of _ 52] roundTiesToEven_def Let_def)
  have s3: "Fin (2123198894479945 / 2 ^ 50) * Fin 100 = Fin (1658749136312457 / 2 ^ 43)"
    by (simp add: fl_eval_pos[of _ 45] roundTiesToEven_def Let_def)
  have s4: "Math_round (Fin (1658749136312457 / 2 ^ 43)) = Fin 189"
    by simp
  have s5: "Math_min (Fin 100) (Fin 189) = Fin 100"
    by (simp add: Math_min_def)
  show ?thesis
    unfolding utilizationOf_def
    by (simp only: s1 s2 s3 s4 s5 if_True if_False)
qed

text \<open>The result of the beam suite on this input.\<close>

lemma beam_span4_result:
  "\<exists>r. calculateDesign (defaultInputs\<lparr>in_width := Blank, in_depth := Blank\<rparr>) = Some r
     \<and> width r = Fin 150 \<and> depth r = Fin 300
     \<and> totalUDL r = lit 36.43 \<and> moment r = lit 72.86
     \<and> utilization r = Fin 100
     \<and> status r = UNSAFE \<and> mainBar r = ''None'' \<and> asRequired r = Fin 0"
proof -
  let ?inp = "defaultInputs\<lparr>in_width := Blank, in_depth := Blank\<rparr>"
  have q1: "lit 1.5 = Fin (3 / 2 ^ 1)"
    by (simp add: fl_eval_pos[of _ 52] roundTiesToEven_def Let_def lit_def)
  have q2: "lit 72.86 = Fin (5127066700784599 / 2 ^ 46)"
    by (simp add: fl_eval_pos[of _ 46] roundTiesToEven_def Let_def lit_def)
  have q3: "lit 36.43 = Fin (5127066700784599 / 2 ^ 47)"
    by (simp add: fl_eval_pos[of _ 47] roundTiesToEven_def Let_def lit_def)
  have f1: "toFixed2 (Fin (2563674087880655 / 2 ^ 46)) = Fin (5127066700784599 / 2 ^ 47)"
    by (simp add: fl_eval_pos[of _ 47] roundTiesToEven_def Let_def)
  have f2: "toFixed2 (Fin (2563674087880655 / 2 ^ 45)) = Fin (5127066700784599 / 2 ^ 46)"
    by (simp add: fl_eval_pos[of _ 46] roundTiesToEven_def Let_def)
  have L: "parseFloat (in_span ?inp) = Fin 4" by (simp add: defaultInputs_def)
  have fcu: "parseFloat (in_fcu ?inp) = Fin 25" by (simp add: defaultInputs_def)
  have trib: "parseFloat (orText (in_tributaryWidth ?inp) (Fin 0)) = Fin 3"
    by (simp add: defaultInputs_def)
  have wallH: "parseFloat (orText (in_wallHeight ?inp) (Fin 0)) = Fin 3"
    by (simp add: defaultInputs_def)
  have "parseFloat (orText (in_liveLoad ?inp) (lit 1.5)) = lit 1.5"
    by (simp add: defaultInputs_def)
  then have LL: "parseFloat (orText (in_liveLoad ?inp) (lit 1.5)) = Fin (3 / 2 ^ 1)"
    unfolding q1 .
  have b0: "parseFloat (in_width ?inp) = NaN" by (simp add: defaultInputs_def)
  have h0: "parseFloat (in_depth ?inp) = NaN" by (simp add: defaultInputs_def)
  have "autoDepth (Fin 4) NaN NaN
        = Math_max (Fin 300) (Math_ceil ((Fin 4 * Fin 1000 / Fin 14) / Fin 25) * Fin 25)"
    by (simp add: autoDepth_def falsy_def orElse_def)
  then have h: "autoDepth (Fin 4) NaN NaN = Fin 300" unfolding autoDepth_span4 .
  have "autoWidth (Fin 4) NaN NaN
        = Math_max (Fin 150) (Math_ceil ((autoDepth (Fin 4) NaN NaN / lit 2.5) / Fin 25) * Fin 25)"
    by (simp add: autoWidth_def falsy_def orElse_def)
  then have b: "autoWidth (Fin 4) NaN NaN = Fin 150" unfolding h autoWidth_span4 .
  have ok: "\<not> spanRejected (parseFloat (in_span ?inp))"
    unfolding L by (simp add: spanRejected_def falsy_def isNaN_def)
  have sec: "designSection (Fin (5299504440621943 / 2 ^ 54)) (Fin (2563674087880655 / 2 ^ 45)) (Fin (2563674087880655 / 2 ^ 45)) (Fin 150) (Fin 300) (Fin 257) (Fin 25)
               ''R6-250'' ''R8 @ 175mm'' ''R6 @ 200mm''
             = \<lparr> sStatus = UNSAFE, sMainBar = ''None'', sShearLinks = ''R6-250'',
                 sAsRequired = Fin 0 \<rparr>"
    using flexuralCheck_span4 by (rule designSection_failed)
  have rd: "Math_round (Fin 0) = Fin 0" by simp
  show ?thesis
    using calculateDesign_result[OF ok]
    unfolding Let_def L fcu trib wallH LL b0 h0 h b beamUDL_span4 spanMoment_span4
      endReaction_span4 effDepth_span4 kFactor_span4 sec utilizationOf_span4 f1 f2 q2 q3
    by (auto simp: rd)
qed

text \<open>
  Claim C9, amended: for a span of 4.0 m with width and depth omitted (depth 300 mm and
  width 150 mm are derived), tributary width 3.0 m, wall height 3.0 m, live load 1.5 kPa
  and fcu 25, the beam stage produces the verdict UNSAFE and the main-bar callout "None":
  the load is 36.43 kN/m, the moment 72.86 kNm, and K = 0.294 exceeds 0.156 (utilization
  capped at 100).
\<close>

theorem beam_scenario_span4:
  "\<exists>r. calculateDesign (defaultInputs\<lparr>in_width := Blank, in_depth := Blank\<rparr>) = Some r
     \<and> width r = Fin 150 \<and> depth r = Fin 300
     \<and> totalUDL r = lit 36.43 \<and> moment r = lit 72.86
     \<and> utilization r = Fin 100
     \<and> status r = UNSAFE \<and> mainBar r = ''None'' \<and> asRequired r = Fin 0"
  by (rule beam_span4_result)

text \<open>
  Claim C9, as stated, has the verdict SAFE and a main-bar callout other than "None" for
  this input. The code gives neither.
\<close>

theorem beam_scenario_span4_not_safe:
  "\<not> (\<exists>r. calculateDesign (defaultInputs\<lparr>in_width := Blank, in_depth := Blank\<rparr>) = Some r
          \<and> status r = SAFE \<and> mainBar r \<noteq> ''None'')"
  using beam_span4_result by auto

text \<open>A column load of 289 kN on a soil of 100 kPa, operation by operation.\<close>

lemma footingSide_289_100:
  "footingSide (Fin 289) (Fin 100) = Fin (7656119366529843 / 2 ^ 52)"
proof -
  have s1: "Fin 289 / Fin 100 = Fin (6507701461550367 / 2 ^ 51)"
    by (simp add: fl_eval_pos[of _ 51] roundTiesToEven_def Let_def)
  have s2: "Math_sqrt (Fin (6507701461550367 / 2 ^ 51)) = Fin (7656119366529843 / 2 ^ 52)"
    using fl_sqrt_eval[of "6507701461550367 / 2 ^ 51" 52 7656119366529843] by simp
  have s3: "Fin (7656119366529843 / 2 ^ 52) * Fin 10 = Fin 17"
    by (simp add: fl_eval_pos[of _ 48] roundTiesToEven_def Let_def)
  have s4: "Math_ceil (Fin 17) = Fin 17"
    by simp
  have s5: "Fin 17 / Fin 10 = Fin (7656119366529843 / 2 ^ 52)"
    by (simp add: fl_eval_pos[of _ 52] roundTiesToEven_def Let_def)
  show ?thesis
    unfolding footingSide_def Let_def
    by (simp only: s1 s2 s3 s4 s5 if_True if_False)
qed

lemma bearingPressureOf_289_100:
  "bearingPressureOf (Fin 289) (Fin (7656119366529843 / 2 ^ 52)) = Fin (7036874417766401 / 2 ^ 46)"
proof -
  have s1: "Fin (7656119366529843 / 2 ^ 52) * Fin (7656119366529843 / 2 ^ 52) = Fin (3253850730775183 / 2 ^ 50)"
    by (simp add: fl_eval_pos[of _ 51] roundTiesToEven_def Let_def)
  have s2: "Fin 289 / Fin (3253850730775183 / 2 ^ 50) = Fin (7036874417766401 / 2 ^ 46)"
    by (simp add: fl_eval_pos[of _ 46] roundTiesToEven_def Let_def)
  show ?thesis
    unfolding bearingPressureOf_def
    by (simp only: s1 s2 if_True if_False)
qed

lemma footingStatusOf_289_100:
  "footingStatusOf (Fin (7036874417766401 / 2 ^ 46)) (Fin 100) = UNSAFE"
proof -
  have s1: "\<not> Fin (7036874417766401 / 2 ^ 46) \<le> Fin 100"
    by simp
  show ?thesis
    unfolding footingStatusOf_def
    by (simp only: s1 if_True if_False)
qed

text \<open>
  In exact arithmetic the side rounded up is always sufficient: the recomputed pressure
  cannot exceed the capacity.
\<close>

lemma exact_side_suffices:
  fixes a s :: real
  assumes "0 < a" "0 < s"
  shows "a / (of_int \<lceil>sqrt (a / s) * 10\<rceil> / 10)\<^sup>2 \<le> s"
proof -
  define side where "side = real_of_int \<lceil>sqrt (a / s) * 10\<rceil> / 10"
  have r: "0 < sqrt (a / s)" using assms by simp
  have "sqrt (a / s) * 10 \<le> of_int \<lceil>sqrt (a / s) * 10\<rceil>" by (rule le_of_int_ceiling)
  then have ge: "sqrt (a / s) \<le> side" by (simp add: side_def)
  then have pos: "0 < side" using r by linarith
  have "a / s = (sqrt (a / s))\<^sup>2" using assms by simp
  also have "\<dots> \<le> side\<^sup>2" using ge r by (intro power_mono) simp_all
  finally have "a / s \<le> side\<^sup>2" .
  then have "a \<le> side\<^sup>2 * s" using assms by (simp add: pos_divide_le_eq)
  then have "a / side\<^sup>2 \<le> s" using pos by (simp add: pos_divide_le_eq mult.commute)
  then show ?thesis by (simp add: side_def)
qed

text \<open>
  Claim C10 says that for every positive load and soil capacity the footing verdict is
  SAFE, the side being rounded up. In binary64 arithmetic the code does not achieve it:
  for 289 kN on 100 kPa the quotient 2.89 has the root 1.7 (as rounded), ten times it rounds
  to exactly 17, so the side is the binary64 value of 1.7, which is below 1.7; its square
  rounds below 2.89 and the recomputed pressure rounds to 100.00000000000001, above the
  capacity. The verdict is UNSAFE.
\<close>

theorem footing_unsafe_289_100:
  "\<exists>r. calculateDesign_A
          (defaultInputs_A\<lparr>inA_colLoad := Text (Fin 289), inA_soilCapacity := Text (Fin 100)\<rparr>)
        = Some r
     \<and> footingStatus_A r = UNSAFE"
proof -
  let ?inp = "defaultInputs_A\<lparr>inA_colLoad := Text (Fin 289), inA_soilCapacity := Text (Fin 100)\<rparr>"
  have load: "orElse (parseFloat (inA_colLoad ?inp)) (Fin 500) = Fin 289"
    by (simp add: orElse_def falsy_def)
  have soil: "orElse (parseFloat (inA_soilCapacity ?inp)) (Fin 150) = Fin 100"
    by (simp add: orElse_def falsy_def)
  show ?thesis
    using calculateDesign_A_footing[of ?inp]
    unfolding load soil footingSide_289_100 bearingPressureOf_289_100 footingStatusOf_289_100
    by blast
qed

end
